theory Spec2Isabelle
  imports Complex_Main
begin

section \<open>Values and exceptions of the Python program\<close>

text \<open>
  Every frame and every decrypted payload is the result of \<^verbatim>\<open>json.loads\<close>: a null, a
  boolean, a number, a string, a list or a dictionary with string keys. Numbers are
  modelled as integers (the fields the handler reads are identifiers, millisecond
  timestamps and status codes). A dictionary is an association list, looked up with
  \<open>map_of\<close>. Strings are byte strings (UTF-8), so the Chinese status labels of the source
  are written out as their bytes.
\<close>

datatype json =
    JNull
  | JBool bool
  | JInt int
  | JStr string
  | JList "json list"
  | JDict "(string \<times> json) list"

text \<open>The exceptions the modelled code can raise.\<close>

datatype pyerr =
    KeyError
  | TypeError
  | AttributeError
  | ValueError
  | IndexError
  | ConnectionClosed
  | DatabaseError
  | CollaboratorError

type_synonym 'a res = "pyerr + 'a"

definition bnd :: "'a res \<Rightarrow> ('a \<Rightarrow> 'b res) \<Rightarrow> 'b res" where
  "bnd m f = (case m of Inl e \<Rightarrow> Inl e | Inr v \<Rightarrow> f v)"

text \<open>\<^verbatim>\<open>try: return e  except Exception: return False\<close>\<close>

definition except_False :: "bool res \<Rightarrow> bool" where
  "except_False m = (case m of Inl e \<Rightarrow> False | Inr b \<Rightarrow> b)"

text \<open>\<^verbatim>\<open>a and b\<close> on booleans, where evaluating either side may raise.\<close>

definition and_then :: "bool res \<Rightarrow> bool res \<Rightarrow> bool res" where
  "and_then a b = (case a of Inl e \<Rightarrow> Inl e | Inr x \<Rightarrow> (if x then b else Inr False))"

subsection \<open>String primitives\<close>

text \<open>\<^verbatim>\<open>sub in s\<close> on two strings: \<open>sub\<close> occurs in \<open>s\<close> as a contiguous substring.\<close>

definition starts_with :: "string \<Rightarrow> string \<Rightarrow> bool" where
  "starts_with sub s = (take (length sub) s = sub)"

fun str_contains :: "string \<Rightarrow> string \<Rightarrow> bool" where
  "str_contains sub [] = (sub = [])"
| "str_contains sub (c # cs) = (starts_with sub (c # cs) \<or> str_contains sub cs)"

text \<open>
  The first occurrence of a separator: the text before it and the text after it.
  \<^verbatim>\<open>s.split(sep)[0]\<close> is the text before the first occurrence (all of \<open>s\<close> when there is
  none), \<^verbatim>\<open>s.split(sep)[1]\<close> is the text between the first and the second occurrence
  and raises IndexError when \<open>sep\<close> does not occur.
\<close>

fun find_sep :: "string \<Rightarrow> string \<Rightarrow> (string \<times> string) option" where
  "find_sep sep [] = (if sep = [] then Some ([], []) else None)"
| "find_sep sep (c # cs) =
     (if starts_with sep (c # cs) then Some ([], drop (length sep) (c # cs))
      else (case find_sep sep cs of None \<Rightarrow> None | Some (b, a) \<Rightarrow> Some (c # b, a)))"

definition split0 :: "string \<Rightarrow> string \<Rightarrow> string" where
  "split0 sep s = (case find_sep sep s of None \<Rightarrow> s | Some (b, a) \<Rightarrow> b)"

definition split1 :: "string \<Rightarrow> string \<Rightarrow> string res" where
  "split1 sep s = (case find_sep sep s of None \<Rightarrow> Inl IndexError | Some (b, a) \<Rightarrow> Inr (split0 sep a))"

text \<open>
  \<^verbatim>\<open>str.strip()\<close> removes the leading and the trailing whitespace characters. The
  whitespace characters of Python are those of Unicode: U+0009 to U+000D, U+001C to
  U+0020, U+0085, U+00A0, U+1680, U+2000 to U+200A, U+2028, U+2029, U+202F, U+205F and
  U+3000. As strings are UTF-8 here, each is the byte sequence that encodes it.
\<close>

definition whitespace :: "string list" where
  "whitespace =
     [[CHR 0x09], [CHR 0x0A], [CHR 0x0B], [CHR 0x0C], [CHR 0x0D],
      [CHR 0x1C], [CHR 0x1D], [CHR 0x1E], [CHR 0x1F], [CHR 0x20],
      [CHR 0xC2, CHR 0x85], [CHR 0xC2, CHR 0xA0],
      [CHR 0xE1, CHR 0x9A, CHR 0x80],
      [CHR 0xE2, CHR 0x80, CHR 0x80], [CHR 0xE2, CHR 0x80, CHR 0x81],
      [CHR 0xE2, CHR 0x80, CHR 0x82], [CHR 0xE2, CHR 0x80, CHR 0x83],
      [CHR 0xE2, CHR 0x80, CHR 0x84], [CHR 0xE2, CHR 0x80, CHR 0x85],
      [CHR 0xE2, CHR 0x80, CHR 0x86], [CHR 0xE2, CHR 0x80, CHR 0x87],
      [CHR 0xE2, CHR 0x80, CHR 0x88], [CHR 0xE2, CHR 0x80, CHR 0x89],
      [CHR 0xE2, CHR 0x80, CHR 0x8A],
      [CHR 0xE2, CHR 0x80, CHR 0xA8], [CHR 0xE2, CHR 0x80, CHR 0xA9],
      [CHR 0xE2, CHR 0x80, CHR 0xAF],
      [CHR 0xE2, CHR 0x81, CHR 0x9F],
      [CHR 0xE3, CHR 0x80, CHR 0x80]]"

text \<open>The string without every leading occurrence of one of the given sequences.\<close>

function drop_leading :: "string list \<Rightarrow> string \<Rightarrow> string" where
  "drop_leading ps s =
     (case List.find (\<lambda>p. p \<noteq> [] \<and> starts_with p s) ps of
        None \<Rightarrow> s
      | Some p \<Rightarrow> drop_leading ps (drop (length p) s))"
  by pat_completeness auto
termination
proof (relation "measure (\<lambda>(ps, s). length s)")
  show "wf (measure (\<lambda>(ps, s). length s))" by simp
next
  fix ps :: "string list" and s p :: string
  assume "List.find (\<lambda>p. p \<noteq> [] \<and> starts_with p s) ps = Some p"
  then have "p \<noteq> []" and "take (length p) s = p"
    by (auto simp: find_Some_iff starts_with_def)
  then have "s \<noteq> []" by auto
  then show "((ps, drop (length p) s), (ps, s)) \<in> measure (\<lambda>(ps, s). length s)"
    using \<open>p \<noteq> []\<close> by simp
qed

declare drop_leading.simps [simp del]

definition strip :: "string \<Rightarrow> string" where
  "strip s = rev (drop_leading (map rev whitespace) (rev (drop_leading whitespace s)))"

subsection \<open>Operators on JSON values\<close>

definition isinstance_dict :: "json \<Rightarrow> bool" where
  "isinstance_dict v = (case v of JDict kvs \<Rightarrow> True | _ \<Rightarrow> False)"

definition isinstance_list :: "json \<Rightarrow> bool" where
  "isinstance_list v = (case v of JList xs \<Rightarrow> True | _ \<Rightarrow> False)"

text \<open>\<^verbatim>\<open>k in v\<close> for a string \<open>k\<close>: key of a dictionary, element of a list, substring of a
  string; any other right operand raises TypeError.\<close>

definition py_in :: "string \<Rightarrow> json \<Rightarrow> bool res" where
  "py_in k v = (case v of
      JDict kvs \<Rightarrow> Inr (map_of kvs k \<noteq> None)
    | JList xs \<Rightarrow> Inr (JStr k \<in> set xs)
    | JStr s \<Rightarrow> Inr (str_contains k s)
    | _ \<Rightarrow> Inl TypeError)"

text \<open>\<^verbatim>\<open>v[k]\<close> for a string \<open>k\<close>: only a dictionary can be subscripted by a string.\<close>

definition py_item :: "json \<Rightarrow> string \<Rightarrow> json res" where
  "py_item v k = (case v of
      JDict kvs \<Rightarrow> (case map_of kvs k of None \<Rightarrow> Inl KeyError | Some x \<Rightarrow> Inr x)
    | _ \<Rightarrow> Inl TypeError)"

text \<open>
  A string is a sequence of characters, each encoded by a leading byte and the
  continuation bytes (0x80 to 0xBF) that follow it.
\<close>

definition is_continuation :: "char \<Rightarrow> bool" where
  "is_continuation c = (128 \<le> (of_char c :: nat) \<and> (of_char c :: nat) < 192)"

text \<open>\<^verbatim>\<open>v[0]\<close>: the first element of a list, the first character of a string; a
  dictionary of string keys has no key \<open>0\<close>.\<close>

definition py_first :: "json \<Rightarrow> json res" where
  "py_first v = (case v of
      JList xs \<Rightarrow> (case xs of [] \<Rightarrow> Inl IndexError | x # _ \<Rightarrow> Inr x)
    | JStr s \<Rightarrow> (case s of [] \<Rightarrow> Inl IndexError | c # cs \<Rightarrow> Inr (JStr (c # takeWhile is_continuation cs)))
    | JDict kvs \<Rightarrow> Inl KeyError
    | _ \<Rightarrow> Inl TypeError)"

text \<open>\<^verbatim>\<open>len(v)\<close>: the number of elements, of characters, of entries.\<close>

definition py_len :: "json \<Rightarrow> nat res" where
  "py_len v = (case v of
      JList xs \<Rightarrow> Inr (length xs)
    | JStr s \<Rightarrow> Inr (length (filter (\<lambda>c. \<not> is_continuation c) s))
    | JDict kvs \<Rightarrow> Inr (length kvs)
    | _ \<Rightarrow> Inl TypeError)"

text \<open>\<^verbatim>\<open>v.get(k, d)\<close>: a method of dictionaries only.\<close>

definition py_get :: "json \<Rightarrow> string \<Rightarrow> json \<Rightarrow> json res" where
  "py_get v k d = (case v of
      JDict kvs \<Rightarrow> (case map_of kvs k of None \<Rightarrow> Inr d | Some x \<Rightarrow> Inr x)
    | _ \<Rightarrow> Inl AttributeError)"

text \<open>\<^verbatim>\<open>v.split(sep)[0]\<close>: a method of strings only.\<close>

definition py_split0 :: "json \<Rightarrow> string \<Rightarrow> string res" where
  "py_split0 v sep = (case v of JStr s \<Rightarrow> Inr (split0 sep s) | _ \<Rightarrow> Inl AttributeError)"

text \<open>Truth value of a JSON value (\<^verbatim>\<open>if not v\<close>).\<close>

definition truthy :: "json \<Rightarrow> bool" where
  "truthy v = (case v of
      JNull \<Rightarrow> False
    | JBool b \<Rightarrow> b
    | JInt n \<Rightarrow> n \<noteq> 0
    | JStr s \<Rightarrow> s \<noteq> []
    | JList xs \<Rightarrow> xs \<noteq> []
    | JDict kvs \<Rightarrow> kvs \<noteq> [])"

section \<open>The message handler and its manual-mode registry\<close>

text \<open>
  The attributes of \<^verbatim>\<open>MessageHandler\<close> (message_handler.py, lines 18 to 36) that the
  handler reads or writes. \<^verbatim>\<open>toggle_keywords\<close> is the string read from the environment.
\<close>

record handler =
  myid :: string
  manual_mode_conversations :: "string set"
  manual_mode_timestamps :: "string \<Rightarrow> real option"
  manual_mode_timeout :: int
  toggle_keywords :: string
  message_expire_time :: int

definition MessageHandler_init :: "string \<Rightarrow> int \<Rightarrow> string \<Rightarrow> int \<Rightarrow> handler" where
  "MessageHandler_init my ttl keywords expire =
     \<lparr> myid = my,
       manual_mode_conversations = {},
       manual_mode_timestamps = Map.empty,
       manual_mode_timeout = ttl,
       toggle_keywords = keywords,
       message_expire_time = expire \<rparr>"

text \<open>Lines 94 to 100. The argument \<open>now\<close> is the value \<^verbatim>\<open>time.time()\<close> returns.\<close>

definition enter_manual_mode :: "real \<Rightarrow> handler \<Rightarrow> string \<Rightarrow> handler" where
  "enter_manual_mode now h c =
     h\<lparr> manual_mode_conversations := insert c (manual_mode_conversations h),
        manual_mode_timestamps := (manual_mode_timestamps h)(c \<mapsto> now) \<rparr>"

definition exit_manual_mode :: "handler \<Rightarrow> string \<Rightarrow> handler" where
  "exit_manual_mode h c =
     h\<lparr> manual_mode_conversations := manual_mode_conversations h - {c},
        manual_mode_timestamps := (manual_mode_timestamps h)(c := None) \<rparr>"

text \<open>Lines 84 to 92: the answer and the registry after the lazy expiry.\<close>

definition is_manual_mode :: "real \<Rightarrow> handler \<Rightarrow> string \<Rightarrow> bool \<times> handler" where
  "is_manual_mode now h c =
     (if c \<notin> manual_mode_conversations h then (False, h)
      else (case manual_mode_timestamps h c of
              Some ts \<Rightarrow>
                (if now - ts > real_of_int (manual_mode_timeout h)
                 then (False, exit_manual_mode h c)
                 else (True, h))
            | None \<Rightarrow> (True, h)))"

text \<open>Lines 102 to 107. The clock is read once by the check and once more on entering.\<close>

definition toggle_manual_mode :: "real \<Rightarrow> real \<Rightarrow> handler \<Rightarrow> string \<Rightarrow> string \<times> handler" where
  "toggle_manual_mode t_check t_enter h c =
     (case is_manual_mode t_check h c of
        (True, h') \<Rightarrow> (''auto'', exit_manual_mode h' c)
      | (False, h') \<Rightarrow> (''manual'', enter_manual_mode t_enter h' c))"

text \<open>Line 109: \<^verbatim>\<open>message.strip() in self.toggle_keywords\<close>, a substring test on a string;
  a message that is not a string has no \<^verbatim>\<open>strip\<close>.\<close>

definition check_toggle_keywords :: "handler \<Rightarrow> json \<Rightarrow> bool res" where
  "check_toggle_keywords h message =
     (case message of
        JStr s \<Rightarrow> Inr (str_contains (strip s) (toggle_keywords h))
      | _ \<Rightarrow> Inl AttributeError)"

text \<open>A run of registry operations, each with the clock values it reads.\<close>

datatype registry_op =
    Enter real string
  | Exit string
  | Toggle real real string
  | IsActive real string

fun apply_registry_op :: "handler \<Rightarrow> registry_op \<Rightarrow> handler" where
  "apply_registry_op h (Enter now c) = enter_manual_mode now h c"
| "apply_registry_op h (Exit c) = exit_manual_mode h c"
| "apply_registry_op h (Toggle t1 t2 c) = snd (toggle_manual_mode t1 t2 h c)"
| "apply_registry_op h (IsActive now c) = snd (is_manual_mode now h c)"

fun run_registry_ops :: "handler \<Rightarrow> registry_op list \<Rightarrow> handler" where
  "run_registry_ops h [] = h"
| "run_registry_ops h (x # xs) = run_registry_ops (apply_registry_op h x) xs"

definition registry_inv :: "handler \<Rightarrow> bool" where
  "registry_inv h = (manual_mode_conversations h = dom (manual_mode_timestamps h))"

section \<open>The socket and the heartbeat manager\<close>

text \<open>
  The frames the program writes to the socket: the acknowledgement of an inbound frame
  (\<^verbatim>\<open>{"code": 200, "headers": {...}}\<close>, carrying its headers), the heartbeat
  (\<^verbatim>\<open>{"lwp": "/!", "headers": {"mid": mid}}\<close>) and the chat message built by
  \<^verbatim>\<open>send_msg\<close> (its mid and uuid, the conversation id, the receiver, the own id and
  the text).
\<close>

datatype frame =
    AckFrame "(string \<times> json) list"
  | HeartbeatFrame string
  | ChatFrame string string string json string string

text \<open>
  A socket is open or closed and has a history of the frames written to it.
  \<^verbatim>\<open>ws.send\<close> on a closed socket raises \<^verbatim>\<open>ConnectionClosed\<close>.
\<close>

record websocket =
  is_open :: bool
  sent :: "frame list"

definition ws_send :: "websocket \<Rightarrow> frame \<Rightarrow> websocket res" where
  "ws_send w f = (if is_open w then Inr (w\<lparr> sent := sent w @ [f] \<rparr>) else Inl ConnectionClosed)"

definition ws_close :: "websocket \<Rightarrow> websocket" where
  "ws_close w = w\<lparr> is_open := False \<rparr>"

text \<open>The state of an asyncio task.\<close>

datatype task_state = Running | Finished | Cancelled

text \<open>\<^verbatim>\<open>task.cancel()\<close> followed by \<^verbatim>\<open>await task\<close> with \<^verbatim>\<open>CancelledError\<close> swallowed: a
  running task ends cancelled, a task that has ended stays as it is.\<close>

definition cancel_and_await :: "task_state \<Rightarrow> task_state" where
  "cancel_and_await t = (case t of Running \<Rightarrow> Cancelled | Finished \<Rightarrow> Finished | Cancelled \<Rightarrow> Cancelled)"

text \<open>heartbeat.py, lines 14 to 19.\<close>

record heartbeat_manager =
  interval :: int
  timeout :: int
  last_heartbeat_time :: real
  last_heartbeat_response :: real
  task :: "task_state option"

definition HeartbeatManager_init :: "int \<Rightarrow> int \<Rightarrow> heartbeat_manager" where
  "HeartbeatManager_init i t =
     \<lparr> interval = i, timeout = t, last_heartbeat_time = 0, last_heartbeat_response = 0,
       task = None \<rparr>"

text \<open>
  Lines 21 to 28. \<open>mid\<close> is the identifier \<^verbatim>\<open>generate_mid()\<close> returns and \<open>now\<close> the clock
  read after the frame is written. The identifier is returned to the caller; it is
  stored nowhere.
\<close>

definition HeartbeatManager_send ::
  "string \<Rightarrow> real \<Rightarrow> heartbeat_manager \<Rightarrow> websocket \<Rightarrow> (heartbeat_manager \<times> websocket \<times> string) res" where
  "HeartbeatManager_send mid now hb w =
     bnd (ws_send w (HeartbeatFrame mid))
       (\<lambda>w'. Inr (hb\<lparr> last_heartbeat_time := now \<rparr>, w', mid))"

text \<open>
  One iteration of the loop of lines 30 to 43. \<open>current\<close> is the clock read at line 34.
  The result tells how the iteration ends: the loop goes on after one second of sleep,
  or it is left because the response is overdue, or because of an exception.
\<close>

datatype loop_end = Sleep_1s | Response_timeout | Loop_error pyerr

definition HeartbeatManager_loop_iteration ::
  "string \<Rightarrow> real \<Rightarrow> real \<Rightarrow> heartbeat_manager \<Rightarrow> websocket \<Rightarrow> heartbeat_manager \<times> websocket \<times> loop_end" where
  "HeartbeatManager_loop_iteration mid current t_sent hb w =
     (case (if current - last_heartbeat_time hb \<ge> real_of_int (interval hb)
            then bnd (HeartbeatManager_send mid t_sent hb w) (\<lambda>(hb', w', m). Inr (hb', w'))
            else Inr (hb, w)) of
        Inl err \<Rightarrow> (hb, w, Loop_error err)
      | Inr (hb', w') \<Rightarrow>
          (if current - last_heartbeat_response hb' > real_of_int (interval hb' + timeout hb')
           then (hb', w', Response_timeout)
           else (hb', w', Sleep_1s)))"

text \<open>
  The iteration as a step of the task that \<^verbatim>\<open>start\<close> created: when the loop is left
  the coroutine returns and the task is finished. A task that is not running does
  nothing.
\<close>

definition heartbeat_task_step ::
  "string \<Rightarrow> real \<Rightarrow> real \<Rightarrow> heartbeat_manager \<Rightarrow> websocket \<Rightarrow> heartbeat_manager \<times> websocket" where
  "heartbeat_task_step mid current t_sent hb w =
     (if task hb = Some Running
      then (case HeartbeatManager_loop_iteration mid current t_sent hb w of
              (hb', w', Sleep_1s) \<Rightarrow> (hb', w')
            | (hb', w', _) \<Rightarrow> (hb'\<lparr> task := Some Finished \<rparr>, w'))
      else (hb, w))"

text \<open>
  Lines 45 to 54. The test reads the frame only: that it is a dictionary with a
  \<^verbatim>\<open>headers\<close> entry in which \<^verbatim>\<open>mid\<close> occurs, and that its \<^verbatim>\<open>code\<close> is 200. The
  method has no \<^verbatim>\<open>try\<close>: \<^verbatim>\<open>"mid" in headers\<close> raises when the headers are a number,
  a boolean or null.
\<close>

definition HeartbeatManager_handle_response ::
  "real \<Rightarrow> heartbeat_manager \<Rightarrow> json \<Rightarrow> (heartbeat_manager \<times> bool) res" where
  "HeartbeatManager_handle_response now hb message_data =
     bnd (and_then (Inr (isinstance_dict message_data))
           (and_then (py_in ''headers'' message_data)
             (and_then (bnd (py_item message_data ''headers'') (py_in ''mid''))
               (bnd (py_get message_data ''code'' JNull) (\<lambda>c. Inr (c = JInt 200))))))
       (\<lambda>ok. if ok then Inr (hb\<lparr> last_heartbeat_response := now \<rparr>, True) else Inr (hb, False))"

text \<open>Lines 56 to 61 and 63 to 70.\<close>

definition HeartbeatManager_start :: "real \<Rightarrow> heartbeat_manager \<Rightarrow> heartbeat_manager" where
  "HeartbeatManager_start now hb =
     hb\<lparr> last_heartbeat_time := now, last_heartbeat_response := now, task := Some Running \<rparr>"

definition HeartbeatManager_stop :: "heartbeat_manager \<Rightarrow> heartbeat_manager" where
  "HeartbeatManager_stop hb =
     (case task hb of None \<Rightarrow> hb | Some t \<Rightarrow> hb\<lparr> task := Some (cancel_and_await t) \<rparr>)"

text \<open>
  The correlation identifiers of the heartbeat frames written to a socket. This is
  the notion the specification calls the pending correlation ids; the program keeps
  no such table, so it is read off the history of the socket.
\<close>

definition heartbeat_mids_sent :: "websocket \<Rightarrow> string list" where
  "heartbeat_mids_sent w = concat (map (\<lambda>f. case f of HeartbeatFrame m \<Rightarrow> [m] | _ \<Rightarrow> []) (sent w))"

section \<open>The session: credential refresh and reconnection\<close>

text \<open>
  The attributes of \<^verbatim>\<open>XianyuLive\<close> (websocket_client.py, lines 18 to 43) that the
  refresh loop and the main loop read or write. \<^verbatim>\<open>self.ws\<close> and \<^verbatim>\<open>current_token\<close> start
  as \<^verbatim>\<open>None\<close>; the token is whatever value the token service returned under
  \<^verbatim>\<open>accessToken\<close> (\<open>JNull\<close> stands for \<^verbatim>\<open>None\<close>).
\<close>

record session =
  ws :: "websocket option"
  heartbeat :: heartbeat_manager
  token_refresh_interval :: int
  token_retry_interval :: int
  last_token_refresh_time :: real
  current_token :: json
  token_refresh_task :: "task_state option"
  connection_restart_flag :: bool

text \<open>
  Lines 45 to 58. \<open>token_result\<close> is what \<^verbatim>\<open>self.xianyu.get_token(self.device_id)\<close> does:
  it raises or it returns a JSON value. Every exception is caught; the method
  returns the new token, or \<^verbatim>\<open>None\<close> after a failure. The two assignments happen only
  after the token has been read out of the result.
\<close>

definition refresh_token :: "real \<Rightarrow> json res \<Rightarrow> session \<Rightarrow> session \<times> json" where
  "refresh_token now token_result s =
     (case bnd token_result (\<lambda>r.
             bnd (and_then (py_in ''data'' r) (bnd (py_item r ''data'') (py_in ''accessToken'')))
               (\<lambda>ok. if ok
                      then bnd (py_item r ''data'') (\<lambda>d.
                           bnd (py_item d ''accessToken'') (\<lambda>t. Inr (Some t)))
                      else Inr None)) of
        Inr (Some t) \<Rightarrow> (s\<lparr> current_token := t, last_token_refresh_time := now \<rparr>, t)
      | _ \<Rightarrow> (s, JNull))"

text \<open>
  One iteration of the loop of lines 60 to 77. \<open>now\<close> is the clock read at line 64 and
  \<open>t_refreshed\<close> the clock read inside \<^verbatim>\<open>refresh_token\<close>. The result says what the loop
  does next: it sleeps for the given number of seconds and iterates again, or it
  leaves the loop (the task is finished).
\<close>

datatype loop_next = Sleep_then_continue int | Break

definition token_refresh_loop_iteration ::
  "real \<Rightarrow> real \<Rightarrow> json res \<Rightarrow> session \<Rightarrow> session \<times> loop_next" where
  "token_refresh_loop_iteration now t_refreshed token_result s =
     (if now - last_token_refresh_time s \<ge> real_of_int (token_refresh_interval s)
      then (case refresh_token t_refreshed token_result s of
              (s', tok) \<Rightarrow>
                (if truthy tok
                 then (s'\<lparr> connection_restart_flag := True, ws := map_option ws_close (ws s') \<rparr>, Break)
                 else (s', Sleep_then_continue (token_retry_interval s'))))
      else (s, Sleep_then_continue 60))"

text \<open>
  The main loop, lines 117 to 172. The \<^verbatim>\<open>try\<close> block ends in one of three ways: the
  \<^verbatim>\<open>async for\<close> over the socket ends (the socket was closed, or the loop was left at
  line 141), \<^verbatim>\<open>ConnectionClosed\<close> is raised, or another exception is raised (the
  connection could not be opened, the registration failed). The two \<^verbatim>\<open>except\<close>
  clauses only log; all three ways reach the \<^verbatim>\<open>finally\<close> block of lines 159 to 172,
  after which the \<^verbatim>\<open>while True\<close> loop connects again.
\<close>

datatype try_end = Receive_loop_ended | Raised_ConnectionClosed | Raised_Exception pyerr

datatype action =
    Cancel_and_await_heartbeat
  | Cancel_and_await_token_refresh
  | Sleep int
  | Connect

definition main_finally :: "try_end \<Rightarrow> session \<Rightarrow> session \<times> action list" where
  "main_finally e s =
     (let s1 = s\<lparr> heartbeat := HeartbeatManager_stop (heartbeat s) \<rparr>;
          s2 = (case token_refresh_task s1 of
                  None \<Rightarrow> s1
                | Some t \<Rightarrow> s1\<lparr> token_refresh_task := Some (cancel_and_await t) \<rparr>)
      in (s2,
          (case task (heartbeat s) of None \<Rightarrow> [] | Some t \<Rightarrow> [Cancel_and_await_heartbeat])
          @ (case token_refresh_task s of None \<Rightarrow> [] | Some t \<Rightarrow> [Cancel_and_await_token_refresh])
          @ (if connection_restart_flag s2 then [] else [Sleep 5])
          @ [Connect]))"

text \<open>The seconds slept before the next connection attempt.\<close>

definition delay_before_connect :: "action list \<Rightarrow> int" where
  "delay_before_connect as = sum_list (map (\<lambda>a. case a of Sleep n \<Rightarrow> n | _ \<Rightarrow> 0) (takeWhile (\<lambda>a. a \<noteq> Connect) as))"

text \<open>
  The heartbeat task as part of the session: \<^verbatim>\<open>self.heartbeat.start(ws)\<close> runs the loop
  on the socket of the session. The loop has the heartbeat manager and the socket in
  its hands and nothing else of the session.
\<close>

definition heartbeat_step :: "string \<Rightarrow> real \<Rightarrow> real \<Rightarrow> session \<Rightarrow> session" where
  "heartbeat_step mid current t_sent s =
     (case ws s of
        None \<Rightarrow> s
      | Some w \<Rightarrow>
          (case heartbeat_task_step mid current t_sent (heartbeat s) w of
             (hb', w') \<Rightarrow> s\<lparr> heartbeat := hb', ws := Some w' \<rparr>))"

text \<open>
  What ends the receive loop of lines 138 to 153, and with it the connection: the
  socket is closed (the \<^verbatim>\<open>async for\<close> ends or raises), or the restart flag is found set
  at line 140. The main loop looks at nothing else; the heartbeat task it created at
  line 135 is not awaited before the \<^verbatim>\<open>finally\<close> block.
\<close>

definition receive_loop_ends :: "session \<Rightarrow> bool" where
  "receive_loop_ends s =
     (connection_restart_flag s \<or> (case ws s of None \<Rightarrow> True | Some w \<Rightarrow> \<not> is_open w))"

section \<open>Handling an inbound frame\<close>

text \<open>
  What \<^verbatim>\<open>handle\<close> does besides writing to the socket and changing the registry: it
  logs, it makes sure the store has a thread row of the conversation (conversation,
  user, item), it records a message in the store (conversation, role, content), it
  saves item information, it submits a reply
  computation to the thread pool (\<^verbatim>\<open>run_in_executor\<close> of \<^verbatim>\<open>process_message\<close> with the
  message, the item description as the pair of \<^verbatim>\<open>desc\<close> and \<^verbatim>\<open>soldPrice\<close>, the sender id
  and name and the conversation id) and it posts an order notification to the webhook
  (buyer id, buyer URL, price, item title).
\<close>

datatype level = Debug | Info | Warning | Error

datatype effect =
    Log level
  | EnsureThread string json string
  | AddMessage string string json
  | SaveItem string json
  | Submit json "json \<times> json" json json string
  | Notify string string json json

definition is_submit :: "effect \<Rightarrow> bool" where
  "is_submit x = (case x of Submit m d u n c \<Rightarrow> True | _ \<Rightarrow> False)"

definition is_notify :: "effect \<Rightarrow> bool" where
  "is_notify x = (case x of Notify u l p t \<Rightarrow> True | _ \<Rightarrow> False)"

definition is_add_message :: "effect \<Rightarrow> bool" where
  "is_add_message x = (case x of AddMessage c r m \<Rightarrow> True | _ \<Rightarrow> False)"

definition is_chat_frame :: "frame \<Rightarrow> bool" where
  "is_chat_frame f = (case f of ChatFrame m u c t me x \<Rightarrow> True | _ \<Rightarrow> False)"

definition is_ack_frame :: "frame \<Rightarrow> bool" where
  "is_ack_frame f = (case f of AckFrame hs \<Rightarrow> True | _ \<Rightarrow> False)"

text \<open>
  Everything \<^verbatim>\<open>handle\<close> takes from outside during one call: the clock values it reads
  (line 252, line 89, line 96), the identifiers \<^verbatim>\<open>generate_mid\<close> and \<^verbatim>\<open>generate_uuid\<close>
  return, the functions of \<^verbatim>\<open>utils.xianyu_utils\<close> and of the standard library it calls
  (whether \<^verbatim>\<open>base64.b64decode\<close> and \<^verbatim>\<open>json.loads\<close> accept the payload as it is;
  \<^verbatim>\<open>json.loads(decrypt(data))\<close>, \<open>None\<close> when it raises; \<^verbatim>\<open>int\<close> on a string), the item
  store, the item API, the reply computation, the webhook address of the environment,
  what posting to the webhook does (the status code of the answer, or an exception)
  and whether the socket has been closed by another task while the reply was computed.
\<close>

record env =
  clock_expiry :: real
  clock_manual :: real
  clock_enter :: real
  ack_mid :: string
  msg_mid :: string
  msg_uuid :: string
  plain_json :: "json \<Rightarrow> bool"
  decrypt_loads :: "json \<Rightarrow> json option"
  str_to_int :: "string \<Rightarrow> int option"
  stored_item_info :: "string \<Rightarrow> json option"
  api_item_info :: "string \<Rightarrow> json res"
  process_message :: "json \<Rightarrow> json \<times> json \<Rightarrow> json \<Rightarrow> json \<Rightarrow> string \<Rightarrow> string res"
  webhook_url :: string
  webhook_status :: "int res"
  closed_meanwhile :: bool

text \<open>The status labels of lines 156 to 162 and the defaults of lines 119 and 120, in
  UTF-8: awaiting payment, trade closed, awaiting shipment, unknown item, unknown.\<close>

definition label_awaiting_payment :: string where
  "label_awaiting_payment =
     [CHR 0xE7, CHR 0xAD, CHR 0x89, CHR 0xE5, CHR 0xBE, CHR 0x85, CHR 0xE4, CHR 0xB9, CHR 0xB0,
      CHR 0xE5, CHR 0xAE, CHR 0xB6, CHR 0xE4, CHR 0xBB, CHR 0x98, CHR 0xE6, CHR 0xAC, CHR 0xBE]"

definition label_trade_closed :: string where
  "label_trade_closed =
     [CHR 0xE4, CHR 0xBA, CHR 0xA4, CHR 0xE6, CHR 0x98, CHR 0x93, CHR 0xE5, CHR 0x85, CHR 0xB3,
      CHR 0xE9, CHR 0x97, CHR 0xAD]"

definition label_awaiting_shipment :: string where
  "label_awaiting_shipment =
     [CHR 0xE7, CHR 0xAD, CHR 0x89, CHR 0xE5, CHR 0xBE, CHR 0x85, CHR 0xE5, CHR 0x8D, CHR 0x96,
      CHR 0xE5, CHR 0xAE, CHR 0xB6, CHR 0xE5, CHR 0x8F, CHR 0x91, CHR 0xE8, CHR 0xB4, CHR 0xA7]"

definition unknown_item :: string where
  "unknown_item =
     [CHR 0xE6, CHR 0x9C, CHR 0xAA, CHR 0xE7, CHR 0x9F, CHR 0xA5, CHR 0xE5, CHR 0x95, CHR 0x86,
      CHR 0xE5, CHR 0x93, CHR 0x81]"

definition unknown_price :: string where
  "unknown_price = [CHR 0xE6, CHR 0x9C, CHR 0xAA, CHR 0xE7, CHR 0x9F, CHR 0xA5]"

subsection \<open>The recognisers, lines 38 to 82\<close>

definition is_chat_message :: "json \<Rightarrow> bool" where
  "is_chat_message message =
     except_False
       (and_then (Inr (isinstance_dict message))
       (and_then (py_in ''1'' message)
       (and_then (bnd (py_item message ''1'') (\<lambda>m1. Inr (isinstance_dict m1)))
       (and_then (bnd (py_item message ''1'') (py_in ''10''))
       (and_then (bnd (py_item message ''1'') (\<lambda>m1. bnd (py_item m1 ''10'') (\<lambda>m10. Inr (isinstance_dict m10))))
                 (bnd (py_item message ''1'') (\<lambda>m1. bnd (py_item m1 ''10'') (py_in ''reminderContent''))))))))"

definition is_sync_package :: "json \<Rightarrow> bool" where
  "is_sync_package message_data =
     except_False
       (and_then (Inr (isinstance_dict message_data))
       (and_then (py_in ''body'' message_data)
       (and_then (bnd (py_item message_data ''body'') (py_in ''syncPushPackage''))
       (and_then (bnd (py_item message_data ''body'') (\<lambda>b. bnd (py_item b ''syncPushPackage'') (py_in ''data'')))
                 (bnd (py_item message_data ''body'') (\<lambda>b. bnd (py_item b ''syncPushPackage'') (\<lambda>p.
                      bnd (py_item p ''data'') (\<lambda>d. bnd (py_len d) (\<lambda>n. Inr (n > 0))))))))))"

definition is_typing_status :: "json \<Rightarrow> bool" where
  "is_typing_status message =
     except_False
       (and_then (Inr (isinstance_dict message))
       (and_then (py_in ''1'' message)
       (and_then (bnd (py_item message ''1'') (\<lambda>m1. Inr (isinstance_list m1)))
       (and_then (bnd (py_item message ''1'') (\<lambda>m1. bnd (py_len m1) (\<lambda>n. Inr (n > 0))))
       (and_then (bnd (py_item message ''1'') (\<lambda>m1. bnd (py_first m1) (\<lambda>x. Inr (isinstance_dict x))))
       (and_then (bnd (py_item message ''1'') (\<lambda>m1. bnd (py_first m1) (py_in ''1'')))
                 (bnd (py_item message ''1'') (\<lambda>m1. bnd (py_first m1) (\<lambda>x.
                      bnd (py_get x ''1'' (JStr [])) (py_in ''@goofish''))))))))))"

definition is_system_message :: "json \<Rightarrow> bool" where
  "is_system_message message =
     except_False
       (and_then (Inr (isinstance_dict message))
       (and_then (py_in ''3'' message)
       (and_then (bnd (py_item message ''3'') (\<lambda>m3. Inr (isinstance_dict m3)))
                 (bnd (py_item message ''3'') (\<lambda>m3. bnd (py_get m3 ''needPush'' JNull)
                      (\<lambda>v. Inr (v = JStr ''false'')))))))"

subsection \<open>The acknowledgement, lines 197 to 212\<close>

text \<open>Every exception in this block is swallowed, also that of a closed socket.\<close>

definition send_ack :: "env \<Rightarrow> json \<Rightarrow> websocket \<Rightarrow> websocket" where
  "send_ack e message_data w =
     (case bnd (py_in ''headers'' message_data) (\<lambda>has.
             if \<not> has then Inr w
             else bnd (py_item message_data ''headers'') (\<lambda>hd.
                  bnd (py_get hd ''mid'' (JStr (ack_mid e))) (\<lambda>mid.
                  bnd (py_get hd ''sid'' (JStr [])) (\<lambda>sid.
                    ws_send w (AckFrame
                      ([(''mid'', mid), (''sid'', sid)]
                       @ concat (map (\<lambda>k. case py_item hd k of Inr v \<Rightarrow> [(k, v)] | Inl x \<Rightarrow> [])
                                  [''app-key'', ''ua'', ''dt''])))))))
      of Inl x \<Rightarrow> w | Inr w' \<Rightarrow> w')"

subsection \<open>Finding and decrypting the payload, lines 214 to 232\<close>

text \<open>
  The result is the decrypted message, or nothing when the frame is dropped by a
  \<^verbatim>\<open>return\<close>; the subscripts of lines 218 and 219 are outside every \<^verbatim>\<open>try\<close> and can raise.
\<close>

definition decode_payload :: "env \<Rightarrow> json \<Rightarrow> (json option \<times> effect list) res" where
  "decode_payload e message_data =
     (if \<not> is_sync_package message_data then Inr (None, [])
      else bnd (py_item message_data ''body'') (\<lambda>b.
           bnd (py_item b ''syncPushPackage'') (\<lambda>p.
           bnd (py_item p ''data'') (\<lambda>d.
           bnd (py_first d) (\<lambda>sync_data.
           bnd (py_in ''data'' sync_data) (\<lambda>has.
             if \<not> has then Inr (None, [])
             else (case py_item sync_data ''data'' of
                     Inl x \<Rightarrow> Inr (None, [Log Error])
                   | Inr data \<Rightarrow>
                       (if plain_json e data then Inr (None, [])
                        else (case decrypt_loads e data of
                                None \<Rightarrow> Inr (None, [Log Error])
                              | Some message \<Rightarrow> Inr (Some message, []))))))))))"

subsection \<open>Order messages, lines 112 to 168\<close>

text \<open>
  Lines 112 to 144: nothing is posted when no webhook address is configured. The title
  and the price are read inside a \<^verbatim>\<open>try\<close> of their own, with the defaults when the
  reading raises. The post is inside a \<^verbatim>\<open>try\<close> as well: an answer with status 200 is
  logged, an exception is logged as an error, and nothing leaves the method.
\<close>

definition send_order_notification :: "env \<Rightarrow> string \<Rightarrow> string \<Rightarrow> json \<Rightarrow> effect list" where
  "send_order_notification e user_id user_url message =
     (if webhook_url e = [] then []
      else (case bnd (py_get message ''3'' (JDict [])) (\<lambda>m3.
                 bnd (py_get m3 ''title'' (JStr unknown_item)) (\<lambda>title.
                 bnd (py_get m3 ''price'' (JStr unknown_price)) (\<lambda>price. Inr (title, price)))) of
              Inl x \<Rightarrow> [Notify user_id user_url (JStr unknown_price) (JStr unknown_item)]
            | Inr (title, price) \<Rightarrow> [Notify user_id user_url price title])
           @ (case webhook_status e of
                Inl x \<Rightarrow> [Log Error]
              | Inr code \<Rightarrow> if code = 200 then [Log Info] else []))"

definition handle_order_message :: "env \<Rightarrow> json \<Rightarrow> bool \<times> effect list" where
  "handle_order_message e message =
     (case bnd (py_get message ''3'' (JDict [])) (\<lambda>m3.
           bnd (py_get m3 ''redReminder'' (JStr [])) (\<lambda>red_reminder.
             if \<not> truthy red_reminder then Inr (False, [])
             else bnd (py_item message ''1'') (\<lambda>m1.
                  bnd (py_split0 m1 ''@'') (\<lambda>user_id.
                    let user_url = ''https://www.goofish.com/personal?userId='' @ user_id in
                    if red_reminder = JStr label_awaiting_payment then Inr (True, [Log Info])
                    else if red_reminder = JStr label_trade_closed then Inr (True, [Log Info])
                    else if red_reminder = JStr label_awaiting_shipment
                    then Inr (True, Log Info # send_order_notification e user_id user_url message)
                    else Inr (False, []))))) of
        Inl x \<Rightarrow> (False, [Log Debug])
      | Inr r \<Rightarrow> r)"

subsection \<open>The chat message, lines 245 to 307\<close>

text \<open>\<^verbatim>\<open>int(v)\<close> on a JSON value.\<close>

definition py_int :: "env \<Rightarrow> json \<Rightarrow> int res" where
  "py_int e v = (case v of
      JInt n \<Rightarrow> Inr n
    | JBool b \<Rightarrow> Inr (if b then 1 else 0)
    | JStr s \<Rightarrow> (case str_to_int e s of None \<Rightarrow> Inl ValueError | Some n \<Rightarrow> Inr n)
    | _ \<Rightarrow> Inl TypeError)"

text \<open>Line 257.\<close>

definition extract_item_id :: "json \<Rightarrow> string option res" where
  "extract_item_id url_info =
     bnd (py_in ''itemId='' url_info) (\<lambda>has.
       if has
       then (case url_info of
               JStr s \<Rightarrow> bnd (split1 ''itemId='' s) (\<lambda>r. Inr (Some (split0 ''&'' r)))
             | _ \<Rightarrow> Inl AttributeError)
       else Inr None)"

text \<open>Line 258: the conversation a chat message belongs to.\<close>

definition chat_id_of :: "json \<Rightarrow> string res" where
  "chat_id_of message =
     bnd (py_item message ''1'') (\<lambda>m1. bnd (py_item m1 ''2'') (\<lambda>m2. py_split0 m2 ''@''))"

text \<open>
  Lines 246 to 258: the fields of the message, in the order the source reads them,
  with the expiry test of line 252 in between. The result is nothing when the message
  has expired, else the sender name, the sender id, the text, the item id (if any) and
  the conversation id.
\<close>

definition parse_chat ::
  "env \<Rightarrow> handler \<Rightarrow> json \<Rightarrow> (json \<times> json \<times> json \<times> string option \<times> string) option res" where
  "parse_chat e h message =
     bnd (py_item message ''1'') (\<lambda>m1.
     bnd (py_item m1 ''5'') (\<lambda>t.
     bnd (py_int e t) (\<lambda>create_time.
     bnd (py_item m1 ''10'') (\<lambda>m10.
     bnd (py_item m10 ''reminderTitle'') (\<lambda>send_user_name.
     bnd (py_item m10 ''senderUserId'') (\<lambda>send_user_id.
     bnd (py_item m10 ''reminderContent'') (\<lambda>send_message.
       if clock_expiry e * 1000 - real_of_int create_time > real_of_int (message_expire_time h)
       then Inr None
       else bnd (py_item m10 ''reminderUrl'') (\<lambda>url_info.
            bnd (extract_item_id url_info) (\<lambda>item.
            bnd (chat_id_of message) (\<lambda>chat_id.
              Inr (Some (send_user_name, send_user_id, send_message, item, chat_id))))))))))))"

text \<open>
  database.py, lines 98 to 127. \<^verbatim>\<open>add_message_by_chat\<close> first inserts the thread row
  unless it exists, with the user as an SQL parameter, and commits; then it inserts the
  message, with the content as an SQL parameter. SQLite binds null, booleans, integers
  of 64 bits and strings; a list, a dictionary or a larger integer raises. The column
  \<^verbatim>\<open>content\<close> is \<^verbatim>\<open>NOT NULL\<close>, the column \<^verbatim>\<open>user_id\<close> is not. When the second
  statement raises, the thread row of the first is already in the store.
\<close>

definition sql_bindable :: "json \<Rightarrow> bool" where
  "sql_bindable v = (case v of
      JList xs \<Rightarrow> False
    | JDict kvs \<Rightarrow> False
    | JInt n \<Rightarrow> - (2 ^ 63) \<le> n \<and> n < 2 ^ 63
    | _ \<Rightarrow> True)"

definition add_message_by_chat ::
  "string \<Rightarrow> json \<Rightarrow> string \<Rightarrow> string \<Rightarrow> json \<Rightarrow> pyerr option \<times> effect list" where
  "add_message_by_chat chat_id user_id item_id role content =
     (if \<not> sql_bindable user_id then (Some DatabaseError, [])
      else if \<not> sql_bindable content \<or> content = JNull
      then (Some DatabaseError, [EnsureThread chat_id user_id item_id])
      else (None, [EnsureThread chat_id user_id item_id, AddMessage chat_id role content]))"

text \<open>Lines 285 to 294: the item from the store, else from the API; nothing when the
  API result has no item.\<close>

definition resolve_item_info :: "env \<Rightarrow> string \<Rightarrow> (json \<times> effect list) option res" where
  "resolve_item_info e item_id =
     (case stored_item_info e item_id of
        Some v \<Rightarrow> if truthy v then Inr (Some (v, [])) else
          bnd (api_item_info e item_id) (\<lambda>r.
          bnd (and_then (py_in ''data'' r) (bnd (py_item r ''data'') (py_in ''itemDO''))) (\<lambda>ok.
            if ok
            then bnd (py_item r ''data'') (\<lambda>d. bnd (py_item d ''itemDO'') (\<lambda>i.
                   Inr (Some (i, [SaveItem item_id i]))))
            else Inr None))
      | None \<Rightarrow>
          bnd (api_item_info e item_id) (\<lambda>r.
          bnd (and_then (py_in ''data'' r) (bnd (py_item r ''data'') (py_in ''itemDO''))) (\<lambda>ok.
            if ok
            then bnd (py_item r ''data'') (\<lambda>d. bnd (py_item d ''itemDO'') (\<lambda>i.
                   Inr (Some (i, [SaveItem item_id i]))))
            else Inr None)))"

text \<open>
  The outcome of a call: the exception that left it (if any), the handler and the
  socket afterwards, and the effects in order.
\<close>

type_synonym outcome = "pyerr option \<times> handler \<times> websocket \<times> effect list"

text \<open>
  Lines 282 to 307, reached when the conversation is not in manual mode. The reply is
  computed in the thread pool; when it is ready it is written to \<open>w\<close>, the socket the
  message arrived on, whatever has happened to that socket in the meantime.
\<close>

definition reply ::
  "env \<Rightarrow> handler \<Rightarrow> websocket \<Rightarrow> json \<Rightarrow> json \<Rightarrow> json \<Rightarrow> json \<Rightarrow> string \<Rightarrow> string \<Rightarrow> effect list \<Rightarrow> outcome" where
  "reply e h w message send_message send_user_name send_user_id item_id chat_id effs =
     (if is_system_message message then (None, h, w, effs)
      else (case resolve_item_info e item_id of
        Inl err \<Rightarrow> (Some err, h, w, effs)
      | Inr None \<Rightarrow> (None, h, w, effs @ [Log Warning])
      | Inr (Some (item_info, saved)) \<Rightarrow>
          (case bnd (py_item item_info ''desc'') (\<lambda>d.
                bnd (py_item item_info ''soldPrice'') (\<lambda>p. Inr (d, p))) of
             Inl err \<Rightarrow> (Some err, h, w, effs @ saved)
           | Inr item_description \<Rightarrow>
               (case process_message e send_message item_description send_user_id send_user_name chat_id of
                  Inl err \<Rightarrow>
                    (Some err, h, (if closed_meanwhile e then ws_close w else w),
                     effs @ saved @ [Submit send_message item_description send_user_id send_user_name chat_id])
                | Inr bot_reply \<Rightarrow>
                    (case ws_send (if closed_meanwhile e then ws_close w else w)
                            (ChatFrame (msg_mid e) (msg_uuid e) chat_id send_user_id (myid h) bot_reply) of
                       Inl err \<Rightarrow>
                         (Some err, h, ws_close w,
                          effs @ saved @ [Submit send_message item_description send_user_id send_user_name chat_id,
                                          Log Info])
                     | Inr w' \<Rightarrow>
                         (None, h, w',
                          effs @ saved @ [Submit send_message item_description send_user_id send_user_name chat_id,
                                          Log Info]))))))"

text \<open>Lines 264 to 280: the owner's own messages, then the manual-mode gate.\<close>

definition dispatch ::
  "env \<Rightarrow> handler \<Rightarrow> websocket \<Rightarrow> json \<Rightarrow> json \<Rightarrow> json \<Rightarrow> json \<Rightarrow> string \<Rightarrow> string \<Rightarrow> effect list \<Rightarrow> outcome" where
  "dispatch e h w message send_message send_user_name send_user_id item_id chat_id effs =
     (if send_user_id = JStr (myid h)
      then (case check_toggle_keywords h send_message of
              Inl err \<Rightarrow> (Some err, h, w, effs)
            | Inr True \<Rightarrow>
                (None, snd (toggle_manual_mode (clock_manual e) (clock_enter e) h chat_id), w,
                 effs @ [Log Info])
            | Inr False \<Rightarrow>
                (case add_message_by_chat chat_id (JStr (myid h)) item_id ''assistant'' send_message of
                   (Some err, a) \<Rightarrow> (Some err, h, w, effs @ a)
                 | (None, a) \<Rightarrow> (None, h, w, effs @ a @ [Log Info])))
      else (case add_message_by_chat chat_id send_user_id item_id ''user'' send_message of
              (Some err, a) \<Rightarrow> (Some err, h, w, effs @ [Log Info] @ a)
            | (None, a) \<Rightarrow>
                (case is_manual_mode (clock_manual e) h chat_id of
                   (True, h') \<Rightarrow> (None, h', w, effs @ [Log Info] @ a @ [Log Info])
                 | (False, h') \<Rightarrow>
                     reply e h' w message send_message send_user_name send_user_id item_id chat_id
                       (effs @ [Log Info] @ a))))"

text \<open>Lines 245 to 307.\<close>

definition handle_chat :: "env \<Rightarrow> handler \<Rightarrow> websocket \<Rightarrow> json \<Rightarrow> effect list \<Rightarrow> outcome" where
  "handle_chat e h w message effs =
     (case parse_chat e h message of
        Inl err \<Rightarrow> (Some err, h, w, effs)
      | Inr None \<Rightarrow> (None, h, w, effs @ [Log Debug])
      | Inr (Some (send_user_name, send_user_id, send_message, item, chat_id)) \<Rightarrow>
          (case item of
             None \<Rightarrow> (None, h, w, effs @ [Log Warning])
           | Some item_id \<Rightarrow>
               (if item_id = [] then (None, h, w, effs @ [Log Warning])
                else dispatch e h w message send_message send_user_name send_user_id item_id chat_id effs)))"

text \<open>Lines 234 to 307: what is done with a decrypted message.\<close>

definition handle_message :: "env \<Rightarrow> handler \<Rightarrow> websocket \<Rightarrow> json \<Rightarrow> effect list \<Rightarrow> outcome" where
  "handle_message e h w message effs =
     (case handle_order_message e message of
        (True, l) \<Rightarrow> (None, h, w, effs @ l)
      | (False, l) \<Rightarrow>
          (if is_typing_status message then (None, h, w, effs @ l)
           else if \<not> is_chat_message message then (None, h, w, effs @ l @ [Log Debug])
           else handle_chat e h w message (effs @ l)))"

text \<open>\<^verbatim>\<open>MessageHandler.handle\<close>, lines 193 to 307.\<close>

definition handle :: "env \<Rightarrow> handler \<Rightarrow> websocket \<Rightarrow> json \<Rightarrow> outcome" where
  "handle e h w message_data =
     (case decode_payload e message_data of
        Inl err \<Rightarrow> (Some err, h, send_ack e message_data w, [])
      | Inr (None, l) \<Rightarrow> (None, h, send_ack e message_data w, l)
      | Inr (Some message, l) \<Rightarrow> handle_message e h (send_ack e message_data w) message l)"

subsection \<open>The receive loop, websocket_client.py lines 138 to 153\<close>

text \<open>
  One iteration for one raw frame: \<open>raw\<close> is what \<^verbatim>\<open>json.loads\<close> makes of it (\<open>None\<close> for a
  \<^verbatim>\<open>JSONDecodeError\<close>), \<open>now\<close> the clock read by \<^verbatim>\<open>handle_response\<close>. The socket \<open>w\<close> is the
  one of the \<^verbatim>\<open>async with\<close>. Every exception of the body is caught and logged, and the
  loop goes on; it is left only at line 141 when the restart flag is set.
\<close>

datatype loop_ctl = Next_frame | Leave_loop

definition receive_step ::
  "env \<Rightarrow> real \<Rightarrow> session \<Rightarrow> handler \<Rightarrow> websocket \<Rightarrow> json option
     \<Rightarrow> session \<times> handler \<times> websocket \<times> loop_ctl \<times> effect list" where
  "receive_step e now s h w raw =
     (if connection_restart_flag s then (s, h, w, Leave_loop, [])
      else (case raw of
              None \<Rightarrow> (s, h, w, Next_frame, [Log Error])
            | Some message_data \<Rightarrow>
                (case HeartbeatManager_handle_response now (heartbeat s) message_data of
                   Inl err \<Rightarrow> (s, h, w, Next_frame, [Log Error])
                 | Inr (hb', True) \<Rightarrow> (s\<lparr> heartbeat := hb' \<rparr>, h, w, Next_frame, [])
                 | Inr (hb', False) \<Rightarrow>
                     (case handle e h w message_data of
                        (None, h', w', effs) \<Rightarrow> (s, h', w', Next_frame, effs)
                      | (Some err, h', w', effs) \<Rightarrow> (s, h', w', Next_frame, effs @ [Log Error])))))"

section \<open>Example inputs\<close>

text \<open>
  A configuration, a socket and frames on which the definitions are evaluated: the
  owner is \<open>me\<close>, the toggle phrase is \<open>takeover\<close>, payloads are taken to be already
  decrypted JSON, the item is in the store, the reply computation answers \<open>hello\<close>.
\<close>

definition ex_env :: env where
  "ex_env =
     \<lparr> clock_expiry = 1000, clock_manual = 1000, clock_enter = 1000,
       ack_mid = ''a1'', msg_mid = ''m1'', msg_uuid = ''u1'',
       plain_json = (\<lambda>d. False),
       decrypt_loads = (\<lambda>d. Some d),
       str_to_int = (\<lambda>s. None),
       stored_item_info = (\<lambda>i. Some (JDict [(''desc'', JStr ''bike''), (''soldPrice'', JInt 100)])),
       api_item_info = (\<lambda>i. Inl CollaboratorError),
       process_message = (\<lambda>m d u n c. Inr ''hello''),
       webhook_url = ''https://hook.example'',
       webhook_status = Inr 200,
       closed_meanwhile = False \<rparr>"

definition ex_handler :: handler where
  "ex_handler = MessageHandler_init ''me'' 3600 ''takeover'' 300000"

definition ex_socket :: websocket where
  "ex_socket = \<lparr> is_open = True, sent = [] \<rparr>"

text \<open>A chat payload of conversation \<open>c1\<close> about item 42, created at second 999.\<close>

definition ex_chat :: "string \<Rightarrow> string \<Rightarrow> json" where
  "ex_chat uid txt =
     JDict [(''1'', JDict [(''2'', JStr ''c1@goofish''), (''5'', JInt 999000),
       (''10'', JDict [(''reminderTitle'', JStr ''Bob''), (''senderUserId'', JStr uid),
                       (''reminderContent'', JStr txt),
                       (''reminderUrl'', JStr ''fleamarket://item?itemId=42&x=1'')])])]"

text \<open>A chat payload with the reminder content and neither creation time nor
  conversation id.\<close>

definition ex_chat_incomplete :: json where
  "ex_chat_incomplete = JDict [(''1'', JDict [(''10'', JDict [(''reminderContent'', JStr ''hi'')])])]"

definition ex_order :: "string \<Rightarrow> json" where
  "ex_order label =
     JDict [(''1'', JStr ''buyer7@goofish''),
            (''3'', JDict [(''redReminder'', JStr label), (''title'', JStr ''bike''),
                           (''price'', JStr ''100'')])]"

text \<open>The sync frame that carries a payload.\<close>

definition ex_frame :: "json \<Rightarrow> json" where
  "ex_frame m =
     JDict [(''headers'', JDict [(''mid'', JStr ''9''), (''sid'', JStr ''s'')]),
            (''body'', JDict [(''syncPushPackage'', JDict [(''data'', JList [JDict [(''data'', m)]])])])]"

definition ex_heartbeat :: heartbeat_manager where
  "ex_heartbeat =
     \<lparr> interval = 15, timeout = 5, last_heartbeat_time = 100, last_heartbeat_response = 70,
       task = Some Running \<rparr>"

definition ex_session :: session where
  "ex_session =
     \<lparr> ws = Some ex_socket, heartbeat = ex_heartbeat,
       token_refresh_interval = 3600, token_retry_interval = 300,
       last_token_refresh_time = 0, current_token = JStr ''old-token'',
       token_refresh_task = Some Running, connection_restart_flag = False \<rparr>"

section \<open>The registry invariant\<close>

lemma registry_inv_init: "registry_inv (MessageHandler_init my ttl keywords expire)"
  by (simp add: registry_inv_def MessageHandler_init_def)

lemma registry_inv_enter: "registry_inv h \<Longrightarrow> registry_inv (enter_manual_mode now h c)"
  by (simp add: registry_inv_def enter_manual_mode_def)

lemma registry_inv_exit: "registry_inv h \<Longrightarrow> registry_inv (exit_manual_mode h c)"
  by (auto simp: registry_inv_def exit_manual_mode_def)

lemma registry_inv_is_manual_mode:
  "registry_inv h \<Longrightarrow> registry_inv (snd (is_manual_mode now h c))"
  by (simp add: is_manual_mode_def registry_inv_exit split: option.splits)

lemma registry_inv_toggle:
  "registry_inv h \<Longrightarrow> registry_inv (snd (toggle_manual_mode t1 t2 h c))"
proof -
  assume inv: "registry_inv h"
  obtain b h' where r: "is_manual_mode t1 h c = (b, h')"
    by (cases "is_manual_mode t1 h c")
  from inv r have "registry_inv h'"
    using registry_inv_is_manual_mode [of h t1 c] by simp
  with r show ?thesis
    by (cases b) (simp_all add: toggle_manual_mode_def registry_inv_exit registry_inv_enter)
qed

lemma registry_inv_apply:
  "registry_inv h \<Longrightarrow> registry_inv (apply_registry_op h x)"
  by (cases x)
     (simp_all add: registry_inv_enter registry_inv_exit registry_inv_toggle
        registry_inv_is_manual_mode)

lemma registry_inv_run:
  "registry_inv h \<Longrightarrow> registry_inv (run_registry_ops h xs)"
  by (induction xs arbitrary: h) (simp_all add: registry_inv_apply)

lemma is_manual_mode_under_inv:
  "registry_inv h \<Longrightarrow>
   fst (is_manual_mode now h c) =
     (\<exists>ts. manual_mode_timestamps h c = Some ts \<and> now - ts \<le> real_of_int (manual_mode_timeout h))"
  by (auto simp: is_manual_mode_def registry_inv_def split: option.splits)

text \<open>
  Claim C10. Starting from the registry the constructor builds (no conversation, no
  timestamp), after any sequence of enter, exit, toggle and is-active calls, at any clock
  values, the set of conversations in manual mode is exactly the key set of the
  entered-at timestamps. So every conversation in manual mode has a timestamp, and
  the registry answers "active" exactly for the conversations whose timestamp is not
  older than the timeout: the lazy expiry reaches every active entry.
\<close>

theorem C10_registry_invariant:
  "manual_mode_conversations (run_registry_ops (MessageHandler_init my ttl keywords expire) ops)
     = dom (manual_mode_timestamps
              (run_registry_ops (MessageHandler_init my ttl keywords expire) ops))
   \<and> fst (is_manual_mode now
             (run_registry_ops (MessageHandler_init my ttl keywords expire) ops) c)
     = (\<exists>ts. manual_mode_timestamps
               (run_registry_ops (MessageHandler_init my ttl keywords expire) ops) c = Some ts
            \<and> now - ts \<le> real_of_int ttl)"
proof -
  let ?h = "run_registry_ops (MessageHandler_init my ttl keywords expire) ops"
  have inv: "registry_inv ?h"
    by (rule registry_inv_run) (rule registry_inv_init)
  have keep: "manual_mode_timeout (run_registry_ops h xs) = manual_mode_timeout h" for h xs
  proof (induction xs arbitrary: h)
    case Nil
    show ?case by simp
  next
    case (Cons x xs)
    have "manual_mode_timeout (apply_registry_op h x) = manual_mode_timeout h"
      by (cases x)
         (simp_all add: enter_manual_mode_def exit_manual_mode_def toggle_manual_mode_def
            is_manual_mode_def split: option.splits prod.splits bool.splits)
    with Cons show ?case by simp
  qed
  have t: "manual_mode_timeout ?h = ttl"
    by (simp add: keep MessageHandler_init_def)
  from inv have "manual_mode_conversations ?h = dom (manual_mode_timestamps ?h)"
    by (simp add: registry_inv_def)
  moreover from is_manual_mode_under_inv [OF inv, of now c] t
  have "fst (is_manual_mode now ?h c)
          = (\<exists>ts. manual_mode_timestamps ?h c = Some ts \<and> now - ts \<le> real_of_int ttl)"
    by simp
  ultimately show ?thesis by simp
qed

theorem C10_registry_invariant_witness:
  "manual_mode_conversations
     (run_registry_ops (MessageHandler_init ''me'' 3600 ''.'' 300000)
        [Toggle 0 0 ''c1'', Enter 5 ''c2'', IsActive 4000 ''c1''])
   = dom (manual_mode_timestamps
            (run_registry_ops (MessageHandler_init ''me'' 3600 ''.'' 300000)
               [Toggle 0 0 ''c1'', Enter 5 ''c2'', IsActive 4000 ''c1'']))"
  by (rule C10_registry_invariant [THEN conjunct1])

section \<open>The heartbeat\<close>

subsection \<open>Acknowledgements\<close>

text \<open>
  Claim C5 says that an acknowledgement is accepted when its correlation identifier
  matches one of the pending ones, and that then the last-acknowledged time is set to
  the current time. The second half holds; the first does not, because
  \<^verbatim>\<open>handle_response\<close> compares the identifier with nothing. Here the only heartbeat
  written to the socket has the identifier \<open>hb-1\<close>, the frame that arrives carries the
  identifier \<open>other\<close>, and the last-acknowledged time moves from 0 to 12.
\<close>

theorem C5_counterexample:
  "heartbeat_mids_sent \<lparr> is_open = True, sent = [HeartbeatFrame ''hb-1''] \<rparr> = [''hb-1'']
   \<and> HeartbeatManager_handle_response 12
        \<lparr> interval = 15, timeout = 5, last_heartbeat_time = 10, last_heartbeat_response = 0,
          task = Some Running \<rparr>
        (JDict [(''headers'', JDict [(''mid'', JStr ''other'')]), (''code'', JInt 200)])
      = Inr (\<lparr> interval = 15, timeout = 5, last_heartbeat_time = 10, last_heartbeat_response = 12,
               task = Some Running \<rparr>, True)"
  by (simp add: heartbeat_mids_sent_def HeartbeatManager_handle_response_def bnd_def and_then_def
        isinstance_dict_def py_in_def py_item_def py_get_def)

text \<open>The test of \<^verbatim>\<open>handle_response\<close>, conjunct by conjunct.\<close>

lemma handle_response_cases:
  "HeartbeatManager_handle_response now hb message_data =
     (case message_data of
        JDict kvs \<Rightarrow>
          (case map_of kvs ''headers'' of
             None \<Rightarrow> Inr (hb, False)
           | Some hs \<Rightarrow>
               (case py_in ''mid'' hs of
                  Inl err \<Rightarrow> Inl err
                | Inr False \<Rightarrow> Inr (hb, False)
                | Inr True \<Rightarrow>
                    if map_of kvs ''code'' = Some (JInt 200)
                    then Inr (hb\<lparr> last_heartbeat_response := now \<rparr>, True)
                    else Inr (hb, False)))
      | _ \<Rightarrow> Inr (hb, False))"
  by (auto simp: HeartbeatManager_handle_response_def bnd_def and_then_def
        isinstance_dict_def py_item_def py_get_def py_in_def
      split: sum.splits if_splits json.splits option.splits bool.splits)

text \<open>
  Claim C5, as the code has it. The heartbeat manager takes an inbound frame as a
  heartbeat acknowledgement exactly when the frame is a dictionary with an entry
  \<^verbatim>\<open>headers\<close> in which \<^verbatim>\<open>mid\<close> occurs, and with the \<^verbatim>\<open>code\<close> 200; the value of \<^verbatim>\<open>mid\<close> is
  not looked at, and neither the heartbeats sent nor any table of pending identifiers
  enter the test. When a frame is taken as an acknowledgement, the last-acknowledged
  time becomes the current time and nothing else of the heartbeat manager changes;
  when it is not, the heartbeat manager is unchanged. The receive loop consumes a
  frame taken as an acknowledgement: it stores the updated heartbeat manager and goes
  on to the next frame, without handing the frame to the message handler, without
  writing to the socket and without any other effect.
\<close>

theorem C5_ack_any_mid:
  "((\<exists>hb'. HeartbeatManager_handle_response now hb message_data = Inr (hb', True))
    \<longleftrightarrow> (\<exists>kvs hs. message_data = JDict kvs \<and> map_of kvs ''headers'' = Some hs
                  \<and> py_in ''mid'' hs = Inr True \<and> map_of kvs ''code'' = Some (JInt 200)))
   \<and> (HeartbeatManager_handle_response now hb message_data = Inr (hb1, True)
        \<longrightarrow> hb1 = hb\<lparr> last_heartbeat_response := now \<rparr>)
   \<and> (HeartbeatManager_handle_response now hb message_data = Inr (hb2, False) \<longrightarrow> hb2 = hb)
   \<and> (HeartbeatManager_handle_response now (heartbeat s) message_data = Inr (hb3, True)
        \<and> \<not> connection_restart_flag s
      \<longrightarrow> receive_step e now s h w (Some message_data)
            = (s\<lparr> heartbeat := (heartbeat s)\<lparr> last_heartbeat_response := now \<rparr> \<rparr>,
               h, w, Next_frame, []))"
proof (intro conjI)
  show "(\<exists>hb'. HeartbeatManager_handle_response now hb message_data = Inr (hb', True))
    \<longleftrightarrow> (\<exists>kvs hs. message_data = JDict kvs \<and> map_of kvs ''headers'' = Some hs
                  \<and> py_in ''mid'' hs = Inr True \<and> map_of kvs ''code'' = Some (JInt 200))"
    unfolding handle_response_cases
    by (cases message_data)
       (auto split: option.splits sum.splits bool.splits if_splits)
  show "HeartbeatManager_handle_response now hb message_data = Inr (hb1, True)
        \<longrightarrow> hb1 = hb\<lparr> last_heartbeat_response := now \<rparr>"
    unfolding handle_response_cases
    by (auto split: json.splits option.splits sum.splits bool.splits if_splits)
  show "HeartbeatManager_handle_response now hb message_data = Inr (hb2, False) \<longrightarrow> hb2 = hb"
    unfolding handle_response_cases
    by (auto split: json.splits option.splits sum.splits bool.splits if_splits)
  show "HeartbeatManager_handle_response now (heartbeat s) message_data = Inr (hb3, True)
        \<and> \<not> connection_restart_flag s
      \<longrightarrow> receive_step e now s h w (Some message_data)
            = (s\<lparr> heartbeat := (heartbeat s)\<lparr> last_heartbeat_response := now \<rparr> \<rparr>,
               h, w, Next_frame, [])"
  proof
    assume a: "HeartbeatManager_handle_response now (heartbeat s) message_data = Inr (hb3, True)
        \<and> \<not> connection_restart_flag s"
    then have "hb3 = (heartbeat s)\<lparr> last_heartbeat_response := now \<rparr>"
      unfolding handle_response_cases
      by (auto split: json.splits option.splits sum.splits bool.splits if_splits)
    then show "receive_step e now s h w (Some message_data)
            = (s\<lparr> heartbeat := (heartbeat s)\<lparr> last_heartbeat_response := now \<rparr> \<rparr>,
               h, w, Next_frame, [])"
      using a by (simp add: receive_step_def)
  qed
qed

theorem C5_ack_any_mid_witness:
  "HeartbeatManager_handle_response 12 ex_heartbeat
     (JDict [(''headers'', JDict [(''mid'', JStr ''never-sent'')]), (''code'', JInt 200)])
   = Inr (ex_heartbeat\<lparr> last_heartbeat_response := 12 \<rparr>, True)
   \<and> receive_step ex_env 12 ex_session ex_handler ex_socket
        (Some (JDict [(''headers'', JDict [(''mid'', JStr ''never-sent'')]), (''code'', JInt 200)]))
     = (ex_session\<lparr> heartbeat := ex_heartbeat\<lparr> last_heartbeat_response := 12 \<rparr> \<rparr>,
        ex_handler, ex_socket, Next_frame, [])"
proof -
  let ?md = "JDict [(''headers'', JDict [(''mid'', JStr ''never-sent'')]), (''code'', JInt 200)]"
  note t = C5_ack_any_mid [where now = 12 and hb = ex_heartbeat and message_data = ?md
      and s = ex_session and e = ex_env and h = ex_handler and w = ex_socket]
  have acc: "\<exists>kvs hs. ?md = JDict kvs \<and> map_of kvs ''headers'' = Some hs
                  \<and> py_in ''mid'' hs = Inr True \<and> map_of kvs ''code'' = Some (JInt 200)"
    by (simp add: py_in_def)
  have hbs: "heartbeat ex_session = ex_heartbeat" and fl: "\<not> connection_restart_flag ex_session"
    by (simp_all add: ex_session_def)
  from t acc obtain hb' where r: "HeartbeatManager_handle_response 12 ex_heartbeat ?md = Inr (hb', True)"
    by blast
  with t [where ?hb1.0 = hb'] have hb': "hb' = ex_heartbeat\<lparr> last_heartbeat_response := 12 \<rparr>"
    by blast
  show ?thesis
    using t [where ?hb3.0 = hb'] r hb' hbs fl by simp
qed

subsection \<open>Expiry\<close>

text \<open>
  An iteration of the heartbeat loop, case by case: whether a heartbeat is due,
  whether the socket is open, whether the acknowledgement is overdue. A heartbeat
  task that is not running does nothing.
\<close>

lemma loop_iteration_cases:
  "HeartbeatManager_loop_iteration mid current t_sent hb w =
     (if current - last_heartbeat_time hb \<ge> real_of_int (interval hb)
      then (if is_open w
            then (hb\<lparr> last_heartbeat_time := t_sent \<rparr>, w\<lparr> sent := sent w @ [HeartbeatFrame mid] \<rparr>,
                  if current - last_heartbeat_response hb > real_of_int (interval hb + timeout hb)
                  then Response_timeout else Sleep_1s)
            else (hb, w, Loop_error ConnectionClosed))
      else (hb, w,
            if current - last_heartbeat_response hb > real_of_int (interval hb + timeout hb)
            then Response_timeout else Sleep_1s))"
  by (simp add: HeartbeatManager_loop_iteration_def HeartbeatManager_send_def ws_send_def bnd_def)

lemma heartbeat_step_not_running:
  assumes "task (heartbeat s) \<noteq> Some Running"
  shows "heartbeat_step mid current t_sent s = s"
  using assms by (simp add: heartbeat_step_def heartbeat_task_step_def split: option.splits)

text \<open>
  Claim C3 says that when the time since the last acknowledgement exceeds the heartbeat
  interval plus the heartbeat timeout, the heartbeat manager signals the session to
  tear the connection down and reconnect. The heartbeat loop notices the expiry and
  stops, and that is all. In the example session the last acknowledgement is 30
  seconds old, the interval is 15 and the timeout 5: after the iteration the task is
  finished, the socket is open, the restart flag is not set and the receive loop has
  no reason to end.
\<close>

theorem C3_counterexample:
  "task (heartbeat ex_session) = Some Running
   \<and> (100::real) - last_heartbeat_response (heartbeat ex_session)
       > real_of_int (interval (heartbeat ex_session) + timeout (heartbeat ex_session))
   \<and> task (heartbeat (heartbeat_step ''m2'' 100 100 ex_session)) = Some Finished
   \<and> ws (heartbeat_step ''m2'' 100 100 ex_session) = Some \<lparr> is_open = True, sent = [] \<rparr>
   \<and> \<not> connection_restart_flag (heartbeat_step ''m2'' 100 100 ex_session)
   \<and> \<not> receive_loop_ends (heartbeat_step ''m2'' 100 100 ex_session)"
  by (simp add: ex_session_def ex_heartbeat_def ex_socket_def heartbeat_step_def
      heartbeat_task_step_def HeartbeatManager_loop_iteration_def receive_loop_ends_def)

text \<open>
  Claim C3, as the code has it, for a session with a socket and a running heartbeat
  task. An iteration of the heartbeat loop first writes a heartbeat to the socket if
  one is due, then compares the time since the last acknowledgement with interval plus
  timeout.

  \<^item> If the time is strictly greater, the loop is left in this iteration: as a
    response timeout, or as an error when a heartbeat was due and the socket is closed
    so that writing it raised. The heartbeat task is finished, and every later step of
    it changes nothing: no further heartbeat is sent.

  \<^item> If the time is not greater, the iteration ends in the sleep of one second, after
    which the comparison is made again, and the task stays running; only the failed
    write of a due heartbeat ends the loop here.

  \<^item> In every case the socket afterwards is the socket before, with the heartbeat
    appended if one was due and the socket open; the restart flag and the
    credential-refresh task are as before, and whether the receive loop ends is as
    before. Nothing tells the session to tear the connection down.
\<close>

theorem C3_expiry_ends_heartbeat_only:
  assumes "ws s = Some w" and "task (heartbeat s) = Some Running"
  shows "(current - last_heartbeat_response (heartbeat s)
            > real_of_int (interval (heartbeat s) + timeout (heartbeat s))
          \<longrightarrow> snd (snd (HeartbeatManager_loop_iteration mid current t_sent (heartbeat s) w))
               = (if current - last_heartbeat_time (heartbeat s) \<ge> real_of_int (interval (heartbeat s))
                     \<and> \<not> is_open w
                  then Loop_error ConnectionClosed else Response_timeout)
            \<and> task (heartbeat (heartbeat_step mid current t_sent s)) = Some Finished
            \<and> heartbeat_step mid' current' t_sent' (heartbeat_step mid current t_sent s)
               = heartbeat_step mid current t_sent s)
       \<and> (\<not> current - last_heartbeat_response (heartbeat s)
              > real_of_int (interval (heartbeat s) + timeout (heartbeat s))
          \<longrightarrow> snd (snd (HeartbeatManager_loop_iteration mid current t_sent (heartbeat s) w))
               = (if current - last_heartbeat_time (heartbeat s) \<ge> real_of_int (interval (heartbeat s))
                     \<and> \<not> is_open w
                  then Loop_error ConnectionClosed else Sleep_1s)
            \<and> task (heartbeat (heartbeat_step mid current t_sent s))
               = (if current - last_heartbeat_time (heartbeat s) \<ge> real_of_int (interval (heartbeat s))
                     \<and> \<not> is_open w
                  then Some Finished else Some Running))
       \<and> ws (heartbeat_step mid current t_sent s)
           = Some (if current - last_heartbeat_time (heartbeat s) \<ge> real_of_int (interval (heartbeat s))
                      \<and> is_open w
                   then w\<lparr> sent := sent w @ [HeartbeatFrame mid] \<rparr> else w)
       \<and> receive_loop_ends (heartbeat_step mid current t_sent s) = receive_loop_ends s
       \<and> connection_restart_flag (heartbeat_step mid current t_sent s) = connection_restart_flag s
       \<and> token_refresh_task (heartbeat_step mid current t_sent s) = token_refresh_task s"
proof -
  have step: "heartbeat_step mid current t_sent s =
     (case HeartbeatManager_loop_iteration mid current t_sent (heartbeat s) w of
        (hb', w', Sleep_1s) \<Rightarrow> s\<lparr> heartbeat := hb', ws := Some w' \<rparr>
      | (hb', w', _) \<Rightarrow> s\<lparr> heartbeat := hb'\<lparr> task := Some Finished \<rparr>, ws := Some w' \<rparr>)"
    using assms
    by (simp add: heartbeat_step_def heartbeat_task_step_def split: prod.splits loop_end.splits)
  have fin: "task (heartbeat (heartbeat_step mid current t_sent s)) = Some Finished
       \<Longrightarrow> heartbeat_step mid' current' t_sent' (heartbeat_step mid current t_sent s)
               = heartbeat_step mid current t_sent s"
    by (rule heartbeat_step_not_running) simp
  have 1: "current - last_heartbeat_response (heartbeat s)
            > real_of_int (interval (heartbeat s) + timeout (heartbeat s))
          \<Longrightarrow> task (heartbeat (heartbeat_step mid current t_sent s)) = Some Finished"
    unfolding step loop_iteration_cases by simp
  show ?thesis
    using fin 1 assms
    unfolding step loop_iteration_cases
    by (simp add: receive_loop_ends_def)
qed

theorem C3_expiry_ends_heartbeat_only_witness:
  "snd (snd (HeartbeatManager_loop_iteration ''m2'' 100 100 ex_heartbeat ex_socket)) = Response_timeout
   \<and> task (heartbeat (heartbeat_step ''m2'' 100 100 ex_session)) = Some Finished
   \<and> heartbeat_step ''m3'' 101 101 (heartbeat_step ''m2'' 100 100 ex_session)
      = heartbeat_step ''m2'' 100 100 ex_session
   \<and> receive_loop_ends (heartbeat_step ''m2'' 100 100 ex_session) = receive_loop_ends ex_session"
  using C3_expiry_ends_heartbeat_only [where s = ex_session and w = ex_socket and current = 100
      and mid = "''m2''" and t_sent = 100 and mid' = "''m3''" and current' = 101 and t_sent' = 101]
  by (simp add: ex_session_def ex_heartbeat_def)

section \<open>The session\<close>

subsection \<open>A failed credential refresh\<close>

text \<open>
  \<^verbatim>\<open>refresh_token\<close> changes the session exactly when the result of the token service is
  a dictionary whose \<^verbatim>\<open>data\<close> are a dictionary with an entry \<^verbatim>\<open>accessToken\<close>: then it
  stores the entry, whatever it is, and the time. A raised exception and every result
  of another shape leave the session as it was and make the method return \<^verbatim>\<open>None\<close>.
\<close>

lemma refresh_token_raises: "refresh_token t (Inl err) s = (s, JNull)"
  by (simp add: refresh_token_def bnd_def)

lemma refresh_token_malformed:
  assumes "\<not> (\<exists>kvs d t. r = JDict kvs \<and> map_of kvs ''data'' = Some (JDict d)
              \<and> map_of d ''accessToken'' = Some t)"
  shows "refresh_token t (Inr r) s = (s, JNull)"
proof (cases "bnd (Inr r) (\<lambda>r.
             bnd (and_then (py_in ''data'' r) (bnd (py_item r ''data'') (py_in ''accessToken'')))
               (\<lambda>ok. if ok
                      then bnd (py_item r ''data'') (\<lambda>d.
                           bnd (py_item d ''accessToken'') (\<lambda>t. Inr (Some t)))
                      else Inr None))")
  case (Inl a)
  then show ?thesis by (simp add: refresh_token_def)
next
  case (Inr o1)
  show ?thesis
  proof (cases o1)
    case None
    then show ?thesis using Inr by (simp add: refresh_token_def)
  next
    case (Some tok)
    have "\<exists>kvs d. r = JDict kvs \<and> map_of kvs ''data'' = Some (JDict d)
              \<and> map_of d ''accessToken'' = Some tok"
      using Inr Some
      by (auto simp: bnd_def and_then_def py_in_def py_item_def
          split: sum.splits if_splits json.splits option.splits)
    then show ?thesis using assms by blast
  qed
qed

lemma refresh_token_wellformed:
  assumes "map_of kvs ''data'' = Some (JDict d)" and "map_of d ''accessToken'' = Some tok"
  shows "refresh_token t (Inr (JDict kvs)) s
     = (s\<lparr> current_token := tok, last_token_refresh_time := t \<rparr>, tok)"
  using assms by (simp add: refresh_token_def bnd_def and_then_def py_in_def py_item_def)

text \<open>
  Claim C6 says that a failed refresh leaves the credential and its timestamp
  unchanged and is retried after the retry interval. This fails for a result whose
  \<^verbatim>\<open>accessToken\<close> is present and empty (or null). \<^verbatim>\<open>refresh_token\<close> stores the empty
  token and the time and returns the token; the loop tests the truth value of what is
  returned, takes the refresh as failed and sleeps for the retry interval. In the
  example session a refresh is due at second 4000. After the iteration the credential
  is the empty string and the time of the last refresh is 4001; at second 4301, after
  the retry interval of 300 seconds, no refresh is due any more, so the token service
  is not asked again and the loop sleeps 60 seconds, although it would now answer with
  a token.
\<close>

theorem C6_counterexample:
  "real_of_int (token_refresh_interval ex_session) \<le> 4000 - last_token_refresh_time ex_session
   \<and> token_refresh_loop_iteration 4000 4001
        (Inr (JDict [(''data'', JDict [(''accessToken'', JStr [])])])) ex_session
     = (ex_session\<lparr> current_token := JStr [], last_token_refresh_time := 4001 \<rparr>,
        Sleep_then_continue 300)
   \<and> token_refresh_loop_iteration 4301 4302
        (Inr (JDict [(''data'', JDict [(''accessToken'', JStr ''new-token'')])]))
        (ex_session\<lparr> current_token := JStr [], last_token_refresh_time := 4001 \<rparr>)
     = (ex_session\<lparr> current_token := JStr [], last_token_refresh_time := 4001 \<rparr>,
        Sleep_then_continue 60)"
  by (simp add: ex_session_def token_refresh_loop_iteration_def refresh_token_def bnd_def
      and_then_def py_in_def py_item_def truthy_def)

text \<open>
  Claim C6, case by case, at an iteration of the refresh loop at which a refresh is
  due.

  \<^item> If the call of the token service raises, or returns a result that is not a
    dictionary with a dictionary \<^verbatim>\<open>data\<close> holding an \<^verbatim>\<open>accessToken\<close>, the whole session is
    unchanged (the credential, the time of the last refresh, the restart flag, the
    socket) and the loop sleeps for the retry interval. It does retry: the refresh is
    due again at every later iteration, and a result with a token that counts as true
    then installs the token, sets the flag and closes the socket.

  \<^item> If the result holds an \<^verbatim>\<open>accessToken\<close>, the token and the time are stored. A token
    that counts as true sets the restart flag, closes the socket and ends the loop. A
    token that counts as false (empty, null) leaves flag and socket alone and makes
    the loop sleep for the retry interval, with the credential and the time already
    overwritten.
\<close>

theorem C6_refresh_outcomes:
  assumes due: "now - last_token_refresh_time s \<ge> real_of_int (token_refresh_interval s)"
  shows "(token_result = Inl err
          \<or> (\<exists>r. token_result = Inr r
                \<and> \<not> (\<exists>kvs d t. r = JDict kvs \<and> map_of kvs ''data'' = Some (JDict d)
                        \<and> map_of d ''accessToken'' = Some t))
        \<longrightarrow> token_refresh_loop_iteration now t_refreshed token_result s
              = (s, Sleep_then_continue (token_retry_interval s))
            \<and> (now \<le> now' \<and> truthy tok' \<longrightarrow>
                  token_refresh_loop_iteration now' t_refreshed'
                    (Inr (JDict [(''data'', JDict [(''accessToken'', tok')])]))
                    (fst (token_refresh_loop_iteration now t_refreshed token_result s))
                  = (s\<lparr> current_token := tok', last_token_refresh_time := t_refreshed',
                         connection_restart_flag := True, ws := map_option ws_close (ws s) \<rparr>,
                     Break)))
       \<and> (token_result = Inr (JDict kvs) \<and> map_of kvs ''data'' = Some (JDict d)
            \<and> map_of d ''accessToken'' = Some tok
        \<longrightarrow> token_refresh_loop_iteration now t_refreshed token_result s
              = (if truthy tok
                 then (s\<lparr> current_token := tok, last_token_refresh_time := t_refreshed,
                         connection_restart_flag := True, ws := map_option ws_close (ws s) \<rparr>,
                       Break)
                 else (s\<lparr> current_token := tok, last_token_refresh_time := t_refreshed \<rparr>,
                       Sleep_then_continue (token_retry_interval s))))"
proof -
  have a: "token_result = Inl err
          \<or> (\<exists>r. token_result = Inr r
                \<and> \<not> (\<exists>kvs d t. r = JDict kvs \<and> map_of kvs ''data'' = Some (JDict d)
                        \<and> map_of d ''accessToken'' = Some t))
       \<Longrightarrow> token_refresh_loop_iteration now t_refreshed token_result s
              = (s, Sleep_then_continue (token_retry_interval s))"
  proof -
    assume "token_result = Inl err
          \<or> (\<exists>r. token_result = Inr r
                \<and> \<not> (\<exists>kvs d t. r = JDict kvs \<and> map_of kvs ''data'' = Some (JDict d)
                        \<and> map_of d ''accessToken'' = Some t))"
    then have "refresh_token t_refreshed token_result s = (s, JNull)"
      using refresh_token_raises refresh_token_malformed by blast
    then show ?thesis using due by (simp add: token_refresh_loop_iteration_def truthy_def)
  qed
  have b: "now \<le> now' \<Longrightarrow> truthy tok' \<Longrightarrow>
        token_refresh_loop_iteration now' t_refreshed'
              (Inr (JDict [(''data'', JDict [(''accessToken'', tok')])])) s
            = (s\<lparr> current_token := tok', last_token_refresh_time := t_refreshed',
                   connection_restart_flag := True, ws := map_option ws_close (ws s) \<rparr>, Break)"
    using due
    by (simp add: token_refresh_loop_iteration_def refresh_token_wellformed)
  have c: "token_result = Inr (JDict kvs) \<Longrightarrow> map_of kvs ''data'' = Some (JDict d)
            \<Longrightarrow> map_of d ''accessToken'' = Some tok
        \<Longrightarrow> token_refresh_loop_iteration now t_refreshed token_result s
              = (if truthy tok
                 then (s\<lparr> current_token := tok, last_token_refresh_time := t_refreshed,
                         connection_restart_flag := True, ws := map_option ws_close (ws s) \<rparr>,
                       Break)
                 else (s\<lparr> current_token := tok, last_token_refresh_time := t_refreshed \<rparr>,
                       Sleep_then_continue (token_retry_interval s)))"
    using due
    by (simp add: token_refresh_loop_iteration_def refresh_token_wellformed)
  show ?thesis using a b c by simp
qed

theorem C6_refresh_outcomes_witness:
  "token_refresh_loop_iteration 4000 4001 (Inr (JDict [(''ret'', JList [JStr ''FAIL_SYS_TOKEN_EXPIRED''])])) ex_session
     = (ex_session, Sleep_then_continue 300)
   \<and> token_refresh_loop_iteration 4300 4301
        (Inr (JDict [(''data'', JDict [(''accessToken'', JStr ''new-token'')])]))
        (fst (token_refresh_loop_iteration 4000 4001
               (Inr (JDict [(''ret'', JList [JStr ''FAIL_SYS_TOKEN_EXPIRED''])])) ex_session))
     = (ex_session\<lparr> current_token := JStr ''new-token'', last_token_refresh_time := 4301,
                     connection_restart_flag := True, ws := map_option ws_close (ws ex_session) \<rparr>, Break)"
proof -
  let ?bad = "Inr (JDict [(''ret'', JList [JStr ''FAIL_SYS_TOKEN_EXPIRED''])]) :: json res"
  have due: "4000 - last_token_refresh_time ex_session \<ge> real_of_int (token_refresh_interval ex_session)"
    by (simp add: ex_session_def)
  have malformed: "?bad = Inl CollaboratorError
          \<or> (\<exists>r. ?bad = Inr r
                \<and> \<not> (\<exists>kvs d t. r = JDict kvs \<and> map_of kvs ''data'' = Some (JDict d)
                        \<and> map_of d ''accessToken'' = Some t))"
    by simp
  have good: "(4000::real) \<le> 4300 \<and> truthy (JStr ''new-token'')"
    by (simp add: truthy_def)
  have retry: "token_retry_interval ex_session = 300"
    by (simp add: ex_session_def)
  show ?thesis
    using C6_refresh_outcomes [OF due, where token_result = ?bad and err = CollaboratorError
        and t_refreshed = 4001 and now' = 4300 and tok' = "JStr ''new-token''"
        and t_refreshed' = 4301] malformed good
    unfolding retry by blast
qed

subsection \<open>Teardown and reconnection\<close>

lemma cancel_and_await_simps:
  "cancel_and_await Running = Cancelled"
  "cancel_and_await Finished = Finished"
  "cancel_and_await Cancelled = Cancelled"
  by (simp_all add: cancel_and_await_def)

text \<open>
  Claim C9. However the \<^verbatim>\<open>try\<close> block of the main loop ends (the receive loop ended,
  \<^verbatim>\<open>ConnectionClosed\<close> was raised, another exception was raised), the \<^verbatim>\<open>finally\<close> block
  cancels and awaits the heartbeat task and the credential-refresh task, if they
  exist: the session afterwards is the session before with both tasks cancelled and
  awaited, so a running task is cancelled and a task that had ended stays as it
  ended, and neither is running. The actions of the block are these two, in this
  order, then a sleep of five seconds unless the planned-restart flag is set, then the
  connection attempt: the delay before it is zero when the flag is set and five
  seconds when it is not. The flag is not changed by the block.
\<close>

theorem C9_teardown_and_reconnect:
  "fst (main_finally e s)
     = s\<lparr> heartbeat := (heartbeat s)\<lparr> task := map_option cancel_and_await (task (heartbeat s)) \<rparr>,
          token_refresh_task := map_option cancel_and_await (token_refresh_task s) \<rparr>
   \<and> (task (heartbeat s) = Some Running
        \<longrightarrow> task (heartbeat (fst (main_finally e s))) = Some Cancelled)
   \<and> (token_refresh_task s = Some Running
        \<longrightarrow> token_refresh_task (fst (main_finally e s)) = Some Cancelled)
   \<and> task (heartbeat (fst (main_finally e s))) \<noteq> Some Running
   \<and> token_refresh_task (fst (main_finally e s)) \<noteq> Some Running
   \<and> snd (main_finally e s)
       = (if task (heartbeat s) = None then [] else [Cancel_and_await_heartbeat])
         @ (if token_refresh_task s = None then [] else [Cancel_and_await_token_refresh])
         @ (if connection_restart_flag s then [] else [Sleep 5])
         @ [Connect]
   \<and> delay_before_connect (snd (main_finally e s)) = (if connection_restart_flag s then 0 else 5)"
  by (cases "task (heartbeat s)"; cases "token_refresh_task s";
      cases "the (task (heartbeat s))"; cases "the (token_refresh_task s)")
     (simp_all add: main_finally_def Let_def HeartbeatManager_stop_def delay_before_connect_def
        cancel_and_await_simps)

theorem C9_teardown_and_reconnect_witness:
  "task (heartbeat (fst (main_finally Raised_ConnectionClosed ex_session))) = Some Cancelled
   \<and> token_refresh_task (fst (main_finally Raised_ConnectionClosed ex_session)) = Some Cancelled
   \<and> snd (main_finally Raised_ConnectionClosed ex_session)
      = [Cancel_and_await_heartbeat, Cancel_and_await_token_refresh, Sleep 5, Connect]"
proof -
  note t = C9_teardown_and_reconnect [of Raised_ConnectionClosed ex_session]
  have pre: "task (heartbeat ex_session) = Some Running" "token_refresh_task ex_session = Some Running"
    "\<not> connection_restart_flag ex_session"
    by (simp_all add: ex_session_def ex_heartbeat_def)
  from t pre have "task (heartbeat (fst (main_finally Raised_ConnectionClosed ex_session))) = Some Cancelled"
    and "token_refresh_task (fst (main_finally Raised_ConnectionClosed ex_session)) = Some Cancelled"
    by blast+
  moreover from t have "snd (main_finally Raised_ConnectionClosed ex_session)
       = (if task (heartbeat ex_session) = None then [] else [Cancel_and_await_heartbeat])
         @ (if token_refresh_task ex_session = None then [] else [Cancel_and_await_token_refresh])
         @ (if connection_restart_flag ex_session then [] else [Sleep 5])
         @ [Connect]"
    by blast
  then have "snd (main_finally Raised_ConnectionClosed ex_session)
      = [Cancel_and_await_heartbeat, Cancel_and_await_token_refresh, Sleep 5, Connect]"
    using pre by simp
  ultimately show ?thesis by blast
qed

section \<open>Order messages\<close>

text \<open>
  The three status labels are different strings, none of them empty. The order
  handler, for a payload whose entry \<^verbatim>\<open>3\<close> is a dictionary: what is posted to the webhook,
  that at most one post is made, and that without the label of an order awaiting
  shipment no post is made.
\<close>

lemma is_notify_simps:
  "is_notify (Log l) = False"
  "is_notify (EnsureThread c u i) = False"
  "is_notify (AddMessage c r m) = False"
  "is_notify (SaveItem i v) = False"
  "is_notify (Submit sm d su sn sc) = False"
  "is_notify (Notify nu nl np nt) = True"
  by (simp_all add: is_notify_def)

lemma labels_distinct:
  "label_awaiting_shipment \<noteq> label_awaiting_payment"
  "label_awaiting_shipment \<noteq> label_trade_closed"
  "label_awaiting_payment \<noteq> label_trade_closed"
  "label_awaiting_shipment \<noteq> []"
  "label_awaiting_payment \<noteq> []"
  "label_trade_closed \<noteq> []"
  by (simp_all add: label_awaiting_shipment_def label_awaiting_payment_def label_trade_closed_def)

lemma send_order_notification_cases:
  assumes "message = JDict kvs" and "map_of kvs ''3'' = Some (JDict m3)"
  shows "send_order_notification e user_id user_url message =
     (if webhook_url e = [] then []
      else Notify user_id user_url
             (case map_of m3 ''price'' of None \<Rightarrow> JStr unknown_price | Some p \<Rightarrow> p)
             (case map_of m3 ''title'' of None \<Rightarrow> JStr unknown_item | Some t \<Rightarrow> t)
           # (case webhook_status e of
                Inl x \<Rightarrow> [Log Error]
              | Inr code \<Rightarrow> if code = 200 then [Log Info] else []))"
  using assms
  by (simp add: send_order_notification_def bnd_def py_get_def split: option.splits)

lemma send_order_notification_notify:
  "length (filter is_notify (send_order_notification e user_id user_url message)) \<le> 1"
  by (auto simp: send_order_notification_def is_notify_simps split: sum.splits prod.splits)

lemma handle_order_message_other_label:
  assumes "\<not> (\<exists>kvs m3. message = JDict kvs \<and> map_of kvs ''3'' = Some (JDict m3)
               \<and> map_of m3 ''redReminder'' = Some (JStr label_awaiting_shipment))"
  shows "filter is_notify (snd (handle_order_message e message)) = []"
proof (cases message)
  case (JDict kvs)
  show ?thesis
  proof (cases "map_of kvs ''3''")
    case None
    then show ?thesis using JDict
      by (simp add: handle_order_message_def bnd_def py_get_def truthy_def)
  next
    case (Some v)
    show ?thesis
    proof (cases v)
      case (JDict m3)
      then have "map_of m3 ''redReminder'' \<noteq> Some (JStr label_awaiting_shipment)"
        using assms Some \<open>message = JDict kvs\<close> by simp
      then show ?thesis using JDict Some \<open>message = JDict kvs\<close>
        by (auto simp: handle_order_message_def bnd_def py_get_def Let_def is_notify_simps
              labels_distinct labels_distinct [symmetric]
            split: option.splits sum.splits)
    qed (simp_all add: Some \<open>message = JDict kvs\<close> handle_order_message_def bnd_def py_get_def
          is_notify_simps)
  qed
qed (simp_all add: handle_order_message_def bnd_def py_get_def is_notify_simps)

lemma handle_order_message_shipment:
  assumes "message = JDict kvs" and "map_of kvs ''3'' = Some (JDict m3)"
    and "map_of m3 ''redReminder'' = Some (JStr label_awaiting_shipment)"
  shows "handle_order_message e message =
     (case map_of kvs ''1'' of
        Some (JStr s) \<Rightarrow>
          (True, Log Info # send_order_notification e (split0 ''@'' s)
                   (''https://www.goofish.com/personal?userId='' @ split0 ''@'' s) message)
      | _ \<Rightarrow> (False, [Log Debug]))"
  using assms
  by (simp add: handle_order_message_def bnd_def py_get_def py_item_def py_split0_def Let_def
        truthy_def labels_distinct
      split: option.splits json.splits)

lemma handle_order_message_logged_only:
  assumes "message = JDict kvs" and "map_of kvs ''3'' = Some (JDict m3)"
    and "map_of m3 ''redReminder'' = Some (JStr label)"
    and "label = label_awaiting_payment \<or> label = label_trade_closed"
    and "map_of kvs ''1'' = Some (JStr s)"
  shows "handle_order_message e message = (True, [Log Info])"
  using assms
  by (auto simp: handle_order_message_def bnd_def py_get_def py_item_def py_split0_def Let_def
        truthy_def labels_distinct labels_distinct [symmetric])

text \<open>
  Claim C7 says that the label of an order awaiting shipment triggers exactly one
  notification call. It triggers none when no webhook address is configured:
  \<^verbatim>\<open>_send_order_notification\<close> returns at once. The example is the order payload of
  buyer7 with that label, handled in an environment without \<^verbatim>\<open>FEISHU_WEBHOOK_URL\<close>; the
  payload is taken as handled, the success is logged and nothing is posted.
\<close>

theorem C7_counterexample:
  "handle_order_message (ex_env\<lparr> webhook_url := [] \<rparr>) (ex_order label_awaiting_shipment)
     = (True, [Log Info])
   \<and> filter is_notify
        (snd (handle_order_message (ex_env\<lparr> webhook_url := [] \<rparr>) (ex_order label_awaiting_shipment)))
     = []"
  by (simp add: handle_order_message_shipment [where kvs = "[(''1'', JStr ''buyer7@goofish''),
            (''3'', JDict [(''redReminder'', JStr label_awaiting_shipment), (''title'', JStr ''bike''),
                           (''price'', JStr ''100'')])]"
          and ?m3.0 = "[(''redReminder'', JStr label_awaiting_shipment), (''title'', JStr ''bike''),
                           (''price'', JStr ''100'')]"]
        ex_order_def send_order_notification_def ex_env_def is_notify_simps)

text \<open>
  Claim C7, as the code has it, for a payload that is a dictionary whose entry \<^verbatim>\<open>3\<close> is a
  dictionary with the status label under \<^verbatim>\<open>redReminder\<close>.

  \<^item> The label of an order awaiting shipment, with the counterpart id (entry \<^verbatim>\<open>1\<close>) a
    string: the payload is handled and logged, and exactly one notification is posted
    if a webhook address is configured, none if not. The notification carries the
    buyer id (the counterpart id up to its first \<open>@\<close>), the buyer's URL, the price and the
    title of the payload, with the defaults for a missing price or title; what the
    webhook answers decides only the log line that follows.

  \<^item> The same label with a counterpart id that is missing or not a string: the
    exception is swallowed with a debug log, the payload is not taken as handled and
    nothing is posted.

  \<^item> The labels of an order awaiting payment and of a closed trade, with a string
    counterpart id: the payload is handled and logged, nothing else.

  \<^item> Every payload without the label of an order awaiting shipment, of whatever
    shape: nothing is posted.
\<close>

theorem C7_order_notification:
  "(message = JDict kvs \<and> map_of kvs ''3'' = Some (JDict m3)
      \<and> map_of m3 ''redReminder'' = Some (JStr label_awaiting_shipment)
      \<and> map_of kvs ''1'' = Some (JStr s)
    \<longrightarrow> handle_order_message e message
          = (True,
             Log Info #
             (if webhook_url e = [] then []
              else Notify (split0 ''@'' s)
                     (''https://www.goofish.com/personal?userId='' @ split0 ''@'' s)
                     (case map_of m3 ''price'' of None \<Rightarrow> JStr unknown_price | Some p \<Rightarrow> p)
                     (case map_of m3 ''title'' of None \<Rightarrow> JStr unknown_item | Some t \<Rightarrow> t)
                   # (case webhook_status e of
                        Inl x \<Rightarrow> [Log Error]
                      | Inr code \<Rightarrow> if code = 200 then [Log Info] else [])))
        \<and> length (filter is_notify (snd (handle_order_message e message)))
            = (if webhook_url e = [] then 0 else 1))
   \<and> (message = JDict kvs \<and> map_of kvs ''3'' = Some (JDict m3)
      \<and> map_of m3 ''redReminder'' = Some (JStr label_awaiting_shipment)
      \<and> (\<forall>s. map_of kvs ''1'' \<noteq> Some (JStr s))
    \<longrightarrow> handle_order_message e message = (False, [Log Debug]))
   \<and> (message = JDict kvs \<and> map_of kvs ''3'' = Some (JDict m3)
      \<and> map_of m3 ''redReminder'' = Some (JStr label)
      \<and> (label = label_awaiting_payment \<or> label = label_trade_closed)
      \<and> map_of kvs ''1'' = Some (JStr s)
    \<longrightarrow> handle_order_message e message = (True, [Log Info]))
   \<and> (\<not> (\<exists>kvs m3. message = JDict kvs \<and> map_of kvs ''3'' = Some (JDict m3)
               \<and> map_of m3 ''redReminder'' = Some (JStr label_awaiting_shipment))
    \<longrightarrow> filter is_notify (snd (handle_order_message e message)) = [])"
proof (intro conjI impI)
  assume a: "message = JDict kvs \<and> map_of kvs ''3'' = Some (JDict m3)
      \<and> map_of m3 ''redReminder'' = Some (JStr label_awaiting_shipment)
      \<and> map_of kvs ''1'' = Some (JStr s)"
  then have m: "message = JDict kvs" and k3: "map_of kvs ''3'' = Some (JDict m3)"
    and r: "map_of m3 ''redReminder'' = Some (JStr label_awaiting_shipment)"
    and k1: "map_of kvs ''1'' = Some (JStr s)"
    by simp_all
  show eq: "handle_order_message e message
          = (True,
             Log Info #
             (if webhook_url e = [] then []
              else Notify (split0 ''@'' s)
                     (''https://www.goofish.com/personal?userId='' @ split0 ''@'' s)
                     (case map_of m3 ''price'' of None \<Rightarrow> JStr unknown_price | Some p \<Rightarrow> p)
                     (case map_of m3 ''title'' of None \<Rightarrow> JStr unknown_item | Some t \<Rightarrow> t)
                   # (case webhook_status e of
                        Inl x \<Rightarrow> [Log Error]
                      | Inr code \<Rightarrow> if code = 200 then [Log Info] else [])))"
    unfolding handle_order_message_shipment [OF m k3 r]
      send_order_notification_cases [OF m k3]
    by (simp add: k1)
  show "length (filter is_notify (snd (handle_order_message e message)))
            = (if webhook_url e = [] then 0 else 1)"
    unfolding eq by (simp add: is_notify_simps split: sum.splits)
next
  assume a: "message = JDict kvs \<and> map_of kvs ''3'' = Some (JDict m3)
      \<and> map_of m3 ''redReminder'' = Some (JStr label_awaiting_shipment)
      \<and> (\<forall>s. map_of kvs ''1'' \<noteq> Some (JStr s))"
  then have m: "message = JDict kvs" and k3: "map_of kvs ''3'' = Some (JDict m3)"
    and r: "map_of m3 ''redReminder'' = Some (JStr label_awaiting_shipment)"
    and k1: "\<forall>s. map_of kvs ''1'' \<noteq> Some (JStr s)"
    by simp_all
  show "handle_order_message e message = (False, [Log Debug])"
    unfolding handle_order_message_shipment [OF m k3 r]
    using k1 by (simp split: option.splits json.splits)
next
  assume "message = JDict kvs \<and> map_of kvs ''3'' = Some (JDict m3)
      \<and> map_of m3 ''redReminder'' = Some (JStr label)
      \<and> (label = label_awaiting_payment \<or> label = label_trade_closed)
      \<and> map_of kvs ''1'' = Some (JStr s)"
  then show "handle_order_message e message = (True, [Log Info])"
    using handle_order_message_logged_only [of message kvs m3 label s e] by blast
next
  assume "\<not> (\<exists>kvs m3. message = JDict kvs \<and> map_of kvs ''3'' = Some (JDict m3)
               \<and> map_of m3 ''redReminder'' = Some (JStr label_awaiting_shipment))"
  then show "filter is_notify (snd (handle_order_message e message)) = []"
    by (rule handle_order_message_other_label)
qed

theorem C7_order_notification_witness:
  "handle_order_message ex_env (ex_order label_awaiting_shipment)
     = (True, [Log Info,
               Notify ''buyer7'' ''https://www.goofish.com/personal?userId=buyer7''
                 (JStr ''100'') (JStr ''bike''),
               Log Info])
   \<and> handle_order_message ex_env (ex_order label_trade_closed) = (True, [Log Info])
   \<and> filter is_notify (snd (handle_order_message ex_env (ex_order ''refunded''))) = []"
proof -
  let ?m3 = "\<lambda>l. [(''redReminder'', JStr l), (''title'', JStr ''bike''), (''price'', JStr ''100'')]"
  let ?kvs = "\<lambda>l. [(''1'', JStr ''buyer7@goofish''), (''3'', JDict (?m3 l))]"
  have sp: "split0 ''@'' ''buyer7@goofish'' = ''buyer7''"
    by (simp add: split0_def starts_with_def)
  have env: "webhook_url ex_env \<noteq> []" "webhook_status ex_env = Inr 200"
    by (simp_all add: ex_env_def)
  have other: "''refunded'' \<noteq> label_awaiting_shipment"
    by (simp add: label_awaiting_shipment_def)
  have 1: "handle_order_message ex_env (ex_order label_awaiting_shipment)
     = (True, [Log Info,
               Notify ''buyer7'' ''https://www.goofish.com/personal?userId=buyer7''
                 (JStr ''100'') (JStr ''bike''),
               Log Info])"
    using C7_order_notification [where message = "ex_order label_awaiting_shipment"
        and kvs = "?kvs label_awaiting_shipment" and ?m3.0 = "?m3 label_awaiting_shipment"
        and s = "''buyer7@goofish''" and e = ex_env]
    by (simp add: ex_order_def sp env)
  have 2: "handle_order_message ex_env (ex_order label_trade_closed) = (True, [Log Info])"
    using C7_order_notification [where message = "ex_order label_trade_closed"
        and kvs = "?kvs label_trade_closed" and ?m3.0 = "?m3 label_trade_closed"
        and label = label_trade_closed and s = "''buyer7@goofish''" and e = ex_env]
    by (simp add: ex_order_def)
  have 3: "filter is_notify (snd (handle_order_message ex_env (ex_order ''refunded''))) = []"
    using C7_order_notification [where message = "ex_order ''refunded''" and e = ex_env] other
    by (simp add: ex_order_def)
  show ?thesis using 1 2 3 by simp
qed

section \<open>Chat messages\<close>

subsection \<open>The example frames, evaluated\<close>

text \<open>
  What the parts of \<^verbatim>\<open>handle\<close> make of the example frame and of the chat payload in it,
  in an environment that takes the payload as encrypted and decrypts it to itself and
  whose clock stands at second 1000: the frame is acknowledged, the payload is no
  order message and no typing status, it is a chat message of conversation \<open>c1\<close> about
  item 42, not expired, so that \<^verbatim>\<open>handle\<close> arrives at line 264 with its fields.
\<close>

lemma ex_decode:
  assumes "\<not> plain_json e m" and "decrypt_loads e m = Some m"
  shows "decode_payload e (ex_frame m) = Inr (Some m, [])"
  using assms
  by (simp add: decode_payload_def is_sync_package_def ex_frame_def bnd_def and_then_def
      except_False_def isinstance_dict_def py_in_def py_item_def py_len_def py_first_def)

lemma ex_ack:
  "send_ack e (ex_frame m) ex_socket
     = \<lparr> is_open = True, sent = [AckFrame [(''mid'', JStr ''9''), (''sid'', JStr ''s'')]] \<rparr>"
  by (simp add: send_ack_def ex_frame_def ex_socket_def bnd_def py_in_def py_item_def py_get_def
      ws_send_def)

lemma ex_not_order: "handle_order_message e (ex_chat uid msg) = (False, [])"
  by (simp add: handle_order_message_def ex_chat_def bnd_def py_get_def truthy_def)

lemma ex_not_typing: "\<not> is_typing_status (ex_chat uid msg)"
  by (simp add: is_typing_status_def ex_chat_def except_False_def and_then_def bnd_def
      isinstance_dict_def isinstance_list_def py_in_def py_item_def)

lemma ex_is_chat: "is_chat_message (ex_chat uid msg)"
  by (simp add: is_chat_message_def ex_chat_def except_False_def and_then_def bnd_def
      isinstance_dict_def py_in_def py_item_def)


lemma ex_chat_id: "chat_id_of (ex_chat uid msg) = Inr ''c1''"
  by (simp add: chat_id_of_def ex_chat_def bnd_def py_item_def py_split0_def split0_def
      starts_with_def)

lemma ex_item_id: "extract_item_id (JStr ''fleamarket://item?itemId=42&x=1'') = Inr (Some ''42'')"
  by (simp add: extract_item_id_def bnd_def py_in_def split1_def split0_def starts_with_def)

lemma ex_parse:
  assumes "message_expire_time h = 300000" and "clock_expiry e = 1000"
  shows "parse_chat e h (ex_chat uid msg)
     = Inr (Some (JStr ''Bob'', JStr uid, JStr msg, Some ''42'', ''c1''))"
proof -
  have c: "chat_id_of (ex_chat uid msg) = Inr ''c1''" by (rule ex_chat_id)
  show ?thesis
    using assms c
    by (simp add: parse_chat_def bnd_def py_item_def py_int_def ex_item_id ex_chat_def)
qed

lemma ex_handle_any:
  assumes "message_expire_time h = 300000" and "clock_expiry e = 1000"
    and "\<not> plain_json e (ex_chat uid msg)"
    and "decrypt_loads e (ex_chat uid msg) = Some (ex_chat uid msg)"
  shows "handle e h ex_socket (ex_frame (ex_chat uid msg))
     = dispatch e h
         \<lparr> is_open = True, sent = [AckFrame [(''mid'', JStr ''9''), (''sid'', JStr ''s'')]] \<rparr>
         (ex_chat uid msg) (JStr msg) (JStr ''Bob'') (JStr uid) ''42'' ''c1'' []"
  by (simp add: handle_def ex_decode [OF assms(3,4)] ex_ack handle_message_def ex_not_order
      ex_not_typing ex_is_chat handle_chat_def ex_parse [OF assms(1,2)])

lemma ex_env_fields:
  "clock_expiry ex_env = 1000" "clock_manual ex_env = 1000" "clock_enter ex_env = 1000"
  "\<not> plain_json ex_env m" "decrypt_loads ex_env m = Some m"
  "msg_mid ex_env = ''m1''" "msg_uuid ex_env = ''u1''"
  "webhook_url ex_env \<noteq> []" "\<not> closed_meanwhile ex_env"
  "stored_item_info ex_env i = Some (JDict [(''desc'', JStr ''bike''), (''soldPrice'', JInt 100)])"
  "process_message ex_env sm d su sn sc = Inr ''hello''"
  by (simp_all add: ex_env_def)

lemma ex_handle:
  assumes "message_expire_time h = 300000"
  shows "handle ex_env h ex_socket (ex_frame (ex_chat uid msg))
     = dispatch ex_env h
         \<lparr> is_open = True, sent = [AckFrame [(''mid'', JStr ''9''), (''sid'', JStr ''s'')]] \<rparr>
         (ex_chat uid msg) (JStr msg) (JStr ''Bob'') (JStr uid) ''42'' ''c1'' []"
  by (rule ex_handle_any [OF assms]) (simp_all add: ex_env_fields)

lemma ex_strip:
  "strip ''over'' = ''over''"
  "strip '' takeover '' = ''takeover''"
  "strip ''hello'' = ''hello''"
  by (simp_all add: strip_def drop_leading.simps whitespace_def starts_with_def)

lemma ex_handler_fields:
  "myid ex_handler = ''me''"
  "toggle_keywords ex_handler = ''takeover''"
  "message_expire_time ex_handler = 300000"
  "manual_mode_conversations ex_handler = {}"
  by (simp_all add: ex_handler_def MessageHandler_init_def)

lemma ex_toggle:
  "snd (toggle_manual_mode 1000 1000 ex_handler ''c1'') = enter_manual_mode 1000 ex_handler ''c1''"
  by (simp add: toggle_manual_mode_def is_manual_mode_def ex_handler_fields)

lemma ex_manual:
  "fst (is_manual_mode (clock_manual ex_env) (enter_manual_mode 900 ex_handler ''c1'') ''c1'')"
  by (simp add: is_manual_mode_def enter_manual_mode_def ex_handler_def ex_env_fields
      MessageHandler_init_def)

lemma ex_not_heartbeat:
  "HeartbeatManager_handle_response now hb (ex_frame m) = Inr (hb, False)"
  by (simp add: HeartbeatManager_handle_response_def ex_frame_def bnd_def and_then_def
      isinstance_dict_def py_in_def py_item_def py_get_def)


subsection \<open>The toggle\<close>

text \<open>
  A string occurs in itself. The reply path does not touch the registry. A toggle
  changes whether the conversation is in the set of conversations in manual mode,
  measured against its activity before; the lazy expiry of \<^verbatim>\<open>is_manual_mode\<close> does not.
\<close>

lemma str_contains_refl: "str_contains s s"
  by (cases s) (simp_all add: starts_with_def)

lemma reply_handler:
  "fst (snd (reply e h w message m n u i cid effs)) = h"
  by (simp add: reply_def split: sum.splits option.splits prod.splits)

lemma toggle_flips:
  "c \<in> manual_mode_conversations (snd (toggle_manual_mode t1 t2 h c))
     \<longleftrightarrow> \<not> fst (is_manual_mode t1 h c)"
  by (auto simp: toggle_manual_mode_def is_manual_mode_def enter_manual_mode_def
        exit_manual_mode_def split: option.splits if_splits)

lemma is_manual_mode_keeps:
  "c \<in> manual_mode_conversations (snd (is_manual_mode t1 h c)) \<longleftrightarrow> fst (is_manual_mode t1 h c)"
  by (auto simp: is_manual_mode_def exit_manual_mode_def split: option.splits if_splits)

lemma is_manual_mode_active:
  "fst (is_manual_mode t h c) \<Longrightarrow> snd (is_manual_mode t h c) = h"
  by (auto simp: is_manual_mode_def split: option.splits if_splits)

text \<open>
  Claim C4 says that the owner's message toggles manual mode exactly when its trimmed
  text equals the toggle phrase. The test of line 110 is \<^verbatim>\<open>message.strip() in
  self.toggle_keywords\<close> with \<^verbatim>\<open>toggle_keywords\<close> a string, which asks whether the trimmed
  text occurs in the phrase. With the phrase \<open>takeover\<close>, the owner's message \<open>over\<close> is not
  the phrase, and handling it puts conversation \<open>c1\<close>, which was not in manual mode, into
  manual mode.
\<close>

theorem C4_counterexample:
  "strip ''over'' \<noteq> toggle_keywords ex_handler
   \<and> ''c1'' \<notin> manual_mode_conversations ex_handler
   \<and> handle ex_env ex_handler ex_socket (ex_frame (ex_chat ''me'' ''over''))
      = (None, enter_manual_mode 1000 ex_handler ''c1'',
         \<lparr> is_open = True, sent = [AckFrame [(''mid'', JStr ''9''), (''sid'', JStr ''s'')]] \<rparr>,
         [Log Info])
   \<and> ''c1'' \<in> manual_mode_conversations (enter_manual_mode 1000 ex_handler ''c1'')"
  by (simp add: ex_handle ex_handler_fields ex_strip starts_with_def dispatch_def
      check_toggle_keywords_def ex_env_fields ex_toggle)
     (simp add: enter_manual_mode_def)

text \<open>
  Claim C4, as the code has it, for a chat message that has reached line 264 (its
  fields read, not expired, with an item id).

  \<^item> From the owner, a string whose trimmed text occurs in the toggle phrase as a
    substring: manual mode of the conversation is toggled, the action is logged, and
    the message is consumed: nothing is recorded in the store, nothing is submitted,
    nothing is written to the socket. A trimmed text equal to the phrase is such a
    text.

  \<^item> From the owner, a string whose trimmed text does not occur in the phrase: no
    toggle; the message is recorded as an assistant message and logged, and that is
    all.

  \<^item> From the owner, not a string: \<^verbatim>\<open>strip\<close> raises AttributeError; nothing changes.

  \<^item> From anybody else: no toggle; the registry afterwards is the registry before, or
    the registry after the lazy expiry of the conversation's entry.

  \<^item> A toggle puts the conversation into the set of manual conversations exactly when
    it was not active before; the lazy expiry leaves it in the set exactly when it was
    active.
\<close>

theorem C4_toggle_on_substring:
  "(send_user_id = JStr (myid h) \<and> send_message = JStr msg
      \<and> str_contains (strip msg) (toggle_keywords h)
    \<longrightarrow> dispatch e h w message send_message send_user_name send_user_id item_id chat_id effs
          = (None, snd (toggle_manual_mode (clock_manual e) (clock_enter e) h chat_id), w,
             effs @ [Log Info]))
   \<and> (send_user_id = JStr (myid h) \<and> send_message = JStr msg
      \<and> \<not> str_contains (strip msg) (toggle_keywords h)
    \<longrightarrow> dispatch e h w message send_message send_user_name send_user_id item_id chat_id effs
          = (None, h, w,
             effs @ [EnsureThread chat_id (JStr (myid h)) item_id,
                     AddMessage chat_id ''assistant'' (JStr msg), Log Info]))
   \<and> (send_user_id = JStr (myid h) \<and> (\<forall>msg. send_message \<noteq> JStr msg)
    \<longrightarrow> dispatch e h w message send_message send_user_name send_user_id item_id chat_id effs
          = (Some AttributeError, h, w, effs))
   \<and> (send_user_id \<noteq> JStr (myid h)
    \<longrightarrow> fst (snd (dispatch e h w message send_message send_user_name send_user_id item_id
                      chat_id effs))
          \<in> {h, snd (is_manual_mode (clock_manual e) h chat_id)})
   \<and> (strip msg = toggle_keywords h \<longrightarrow> str_contains (strip msg) (toggle_keywords h))
   \<and> (chat_id \<in> manual_mode_conversations
                   (snd (toggle_manual_mode (clock_manual e) (clock_enter e) h chat_id))
        \<longleftrightarrow> \<not> fst (is_manual_mode (clock_manual e) h chat_id))
   \<and> (chat_id \<in> manual_mode_conversations (snd (is_manual_mode (clock_manual e) h chat_id))
        \<longleftrightarrow> fst (is_manual_mode (clock_manual e) h chat_id))"
proof (intro conjI impI)
  assume "send_user_id = JStr (myid h) \<and> send_message = JStr msg
      \<and> str_contains (strip msg) (toggle_keywords h)"
  then show "dispatch e h w message send_message send_user_name send_user_id item_id chat_id effs
          = (None, snd (toggle_manual_mode (clock_manual e) (clock_enter e) h chat_id), w,
             effs @ [Log Info])"
    by (simp add: dispatch_def check_toggle_keywords_def)
next
  assume "send_user_id = JStr (myid h) \<and> send_message = JStr msg
      \<and> \<not> str_contains (strip msg) (toggle_keywords h)"
  then show "dispatch e h w message send_message send_user_name send_user_id item_id chat_id effs
          = (None, h, w,
             effs @ [EnsureThread chat_id (JStr (myid h)) item_id,
                     AddMessage chat_id ''assistant'' (JStr msg), Log Info])"
    by (simp add: dispatch_def check_toggle_keywords_def add_message_by_chat_def sql_bindable_def)
next
  assume "send_user_id = JStr (myid h) \<and> (\<forall>msg. send_message \<noteq> JStr msg)"
  then show "dispatch e h w message send_message send_user_name send_user_id item_id chat_id effs
          = (Some AttributeError, h, w, effs)"
    by (cases send_message) (simp_all add: dispatch_def check_toggle_keywords_def)
next
  assume "send_user_id \<noteq> JStr (myid h)"
  then show "fst (snd (dispatch e h w message send_message send_user_name send_user_id item_id
                      chat_id effs))
          \<in> {h, snd (is_manual_mode (clock_manual e) h chat_id)}"
    by (auto simp: dispatch_def reply_handler split: prod.splits option.splits bool.splits)
next
  assume "strip msg = toggle_keywords h"
  then show "str_contains (strip msg) (toggle_keywords h)"
    by (simp add: str_contains_refl)
qed (rule toggle_flips is_manual_mode_keeps)+

theorem C4_toggle_on_substring_witness:
  "dispatch ex_env ex_handler ex_socket (ex_chat ''me'' '' takeover '') (JStr '' takeover '')
     (JStr ''Bob'') (JStr ''me'') ''42'' ''c1'' []
     = (None, enter_manual_mode 1000 ex_handler ''c1'', ex_socket, [Log Info])
   \<and> dispatch ex_env ex_handler ex_socket (ex_chat ''me'' ''hello'') (JStr ''hello'')
     (JStr ''Bob'') (JStr ''me'') ''42'' ''c1'' []
     = (None, ex_handler, ex_socket,
        [EnsureThread ''c1'' (JStr ''me'') ''42'', AddMessage ''c1'' ''assistant'' (JStr ''hello''),
         Log Info])
   \<and> dispatch ex_env ex_handler ex_socket (ex_chat ''me'' ''hello'') (JInt 5)
     (JStr ''Bob'') (JStr ''me'') ''42'' ''c1'' []
     = (Some AttributeError, ex_handler, ex_socket, [])"
proof -
  have 1: "dispatch ex_env ex_handler ex_socket (ex_chat ''me'' '' takeover '') (JStr '' takeover '')
     (JStr ''Bob'') (JStr ''me'') ''42'' ''c1'' []
     = (None, enter_manual_mode 1000 ex_handler ''c1'', ex_socket, [Log Info])"
    using C4_toggle_on_substring [where h = ex_handler and send_user_id = "JStr ''me''"
        and send_message = "JStr '' takeover ''" and msg = "'' takeover ''" and e = ex_env
        and w = ex_socket and message = "ex_chat ''me'' '' takeover ''"
        and send_user_name = "JStr ''Bob''" and item_id = "''42''" and chat_id = "''c1''"
        and effs = "[]"]
    by (simp add: ex_handler_fields ex_strip str_contains_refl ex_env_fields ex_toggle)
  have 2: "dispatch ex_env ex_handler ex_socket (ex_chat ''me'' ''hello'') (JStr ''hello'')
     (JStr ''Bob'') (JStr ''me'') ''42'' ''c1'' []
     = (None, ex_handler, ex_socket,
        [EnsureThread ''c1'' (JStr ''me'') ''42'', AddMessage ''c1'' ''assistant'' (JStr ''hello''),
         Log Info])"
    using C4_toggle_on_substring [where h = ex_handler and send_user_id = "JStr ''me''"
        and send_message = "JStr ''hello''" and msg = "''hello''" and e = ex_env
        and w = ex_socket and message = "ex_chat ''me'' ''hello''"
        and send_user_name = "JStr ''Bob''" and item_id = "''42''" and chat_id = "''c1''"
        and effs = "[]"]
    by (simp add: ex_handler_fields ex_strip starts_with_def)
  have 3: "dispatch ex_env ex_handler ex_socket (ex_chat ''me'' ''hello'') (JInt 5)
     (JStr ''Bob'') (JStr ''me'') ''42'' ''c1'' []
     = (Some AttributeError, ex_handler, ex_socket, [])"
    using C4_toggle_on_substring [where h = ex_handler and send_user_id = "JStr ''me''"
        and send_message = "JInt 5" and e = ex_env
        and w = ex_socket and message = "ex_chat ''me'' ''hello''"
        and send_user_name = "JStr ''Bob''" and item_id = "''42''" and chat_id = "''c1''"
        and effs = "[]"]
    by (simp add: ex_handler_fields)
  show ?thesis using 1 2 3 by simp
qed

subsection \<open>Takeover\<close>

text \<open>
  The acknowledgement writes at most one frame, an acknowledgement, so it leaves the
  chat frames of the socket as they are. Neither the order handler nor the store
  submits a reply computation. The conversation id that \<^verbatim>\<open>handle\<close> uses is the one of
  the message. With the conversation in manual mode, lines 264 to 280 leave the
  socket alone and submit nothing, and so do lines 234 to 307 as a whole.
\<close>

lemma is_submit_simps:
  "is_submit (Log l) = False"
  "is_submit (EnsureThread c u i) = False"
  "is_submit (AddMessage c r m) = False"
  "is_submit (SaveItem i v) = False"
  "is_submit (Submit sm d su sn sc) = True"
  "is_submit (Notify nu nl np nt) = False"
  by (simp_all add: is_submit_def)

lemma send_ack_cases:
  "send_ack e message_data w = w
   \<or> (\<exists>hs. is_open w \<and> send_ack e message_data w = w\<lparr> sent := sent w @ [AckFrame hs] \<rparr>)"
  by (auto simp: send_ack_def bnd_def ws_send_def split: sum.splits if_splits)

lemma send_ack_chat_frames:
  "filter is_chat_frame (sent (send_ack e message_data w)) = filter is_chat_frame (sent w)"
  using send_ack_cases [of e message_data w] by (auto simp: is_chat_frame_def)

lemma send_order_notification_no_submit:
  "filter is_submit (send_order_notification e u l m) = []"
  by (auto simp: send_order_notification_def is_submit_simps split: sum.splits prod.splits)

lemma handle_order_message_no_submit:
  "filter is_submit (snd (handle_order_message e message)) = []"
  by (auto simp: handle_order_message_def bnd_def Let_def is_submit_simps
        send_order_notification_no_submit
      split: sum.splits if_splits)

lemma parse_chat_chat_id:
  assumes "parse_chat e h message = Inr (Some (n, u, m, i, cid))"
  shows "chat_id_of message = Inr cid"
  using assms
  by (auto simp: parse_chat_def bnd_def split: sum.splits if_splits)

lemma decode_payload_some:
  assumes "decode_payload e message_data = Inr (Some message, l)"
  shows "l = []"
  using assms
  by (auto simp: decode_payload_def bnd_def split: sum.splits if_splits option.splits)

lemma add_message_no_submit:
  "filter is_submit (snd (add_message_by_chat c u i r m)) = []"
  by (simp add: add_message_by_chat_def is_submit_simps)

lemma dispatch_manual:
  assumes "fst (is_manual_mode (clock_manual e) h cid)"
  shows "fst (snd (snd (dispatch e h w message m n u i cid effs))) = w
       \<and> filter is_submit (snd (snd (snd (dispatch e h w message m n u i cid effs))))
           = filter is_submit effs"
proof (cases "u = JStr (myid h)")
  case True
  then show ?thesis
    using add_message_no_submit [of cid "JStr (myid h)" i "''assistant''" m]
    by (auto simp: dispatch_def is_submit_simps split: sum.splits bool.splits prod.splits option.splits)
next
  case False
  then show ?thesis
    using assms add_message_no_submit [of cid u i "''user''" m]
    by (auto simp: dispatch_def is_submit_simps split: prod.splits option.splits bool.splits)
qed

lemma dispatch_manual_buyer:
  assumes "fst (is_manual_mode (clock_manual e) h cid)" and "u \<noteq> JStr (myid h)"
  shows "dispatch e h w message m n u i cid effs =
     (case add_message_by_chat cid u i ''user'' m of
        (Some err, a) \<Rightarrow> (Some err, h, w, effs @ [Log Info] @ a)
      | (None, a) \<Rightarrow> (None, h, w, effs @ [Log Info] @ a @ [Log Info]))"
  using assms is_manual_mode_active [OF assms(1)]
  by (auto simp: dispatch_def split: prod.splits option.splits bool.splits)

lemma handle_chat_manual:
  assumes "chat_id_of message = Inr c" and "fst (is_manual_mode (clock_manual e) h c)"
  shows "fst (snd (snd (handle_chat e h w message effs))) = w
       \<and> filter is_submit (snd (snd (snd (handle_chat e h w message effs))))
           = filter is_submit effs"
proof (cases "parse_chat e h message")
  case (Inl a)
  then show ?thesis by (simp add: handle_chat_def)
next
  case (Inr r)
  show ?thesis
  proof (cases r)
    case None
    then show ?thesis using Inr by (simp add: handle_chat_def is_submit_simps)
  next
    case (Some t)
    obtain n u m i cid where t: "t = (n, u, m, i, cid)" by (cases t) auto
    have "cid = c" using parse_chat_chat_id [of e h message n u m i cid] Inr Some t assms(1) by simp
    then show ?thesis
      using Inr Some t dispatch_manual [OF assms(2), of w message m n u _ effs]
      by (auto simp: handle_chat_def is_submit_simps split: option.splits)
  qed
qed

lemma handle_message_manual:
  assumes "chat_id_of message = Inr c" and "fst (is_manual_mode (clock_manual e) h c)"
  shows "fst (snd (snd (handle_message e h w message effs))) = w
       \<and> filter is_submit (snd (snd (snd (handle_message e h w message effs))))
           = filter is_submit effs"
  using handle_chat_manual [OF assms, of w] handle_order_message_no_submit [of e message]
  by (auto simp: handle_message_def is_submit_simps split: prod.splits bool.splits)

text \<open>
  Claim C1. Let the conversation of a decrypted message be in active takeover when
  the message is handled: \<^verbatim>\<open>is_manual_mode\<close> answers true at the clock value that
  \<^verbatim>\<open>handle\<close> reads. Then, whatever the message is and whoever sent it:

  \<^item> the handling of the message (lines 234 to 307) leaves the socket exactly as it
    was and adds no submission of a reply computation to the effects;

  \<^item> the whole of \<^verbatim>\<open>handle\<close> on the frame that carries the message leaves the socket as
    the acknowledgement of the frame left it (lines 197 to 212, before the payload is
    looked at), so the chat frames written to the socket are those written before,
    and it submits no reply computation;

  \<^item> for a sender other than the owner, lines 264 to 280 log the message, record it
    in the store as a user message, log the takeover and return, with the registry
    unchanged; if the store raises, the exception leaves \<^verbatim>\<open>handle\<close> at that point.
\<close>

theorem C1_takeover_suppression:
  assumes "chat_id_of message = Inr c" and "fst (is_manual_mode (clock_manual e) h c)"
  shows "fst (snd (snd (handle_message e h w message effs))) = w
       \<and> filter is_submit (snd (snd (snd (handle_message e h w message effs))))
           = filter is_submit effs
       \<and> (decode_payload e message_data = Inr (Some message, l) \<longrightarrow>
            fst (snd (snd (handle e h w message_data))) = send_ack e message_data w
          \<and> filter is_chat_frame (sent (fst (snd (snd (handle e h w message_data)))))
              = filter is_chat_frame (sent w)
          \<and> filter is_submit (snd (snd (snd (handle e h w message_data)))) = [])
       \<and> (send_user_id \<noteq> JStr (myid h) \<longrightarrow>
            dispatch e h w message send_message send_user_name send_user_id item_id c effs
            = (case add_message_by_chat c send_user_id item_id ''user'' send_message of
                 (Some err, a) \<Rightarrow> (Some err, h, w, effs @ [Log Info] @ a)
               | (None, a) \<Rightarrow> (None, h, w, effs @ [Log Info] @ a @ [Log Info])))"
proof -
  have m: "fst (snd (snd (handle_message e h w' message effs'))) = w'
       \<and> filter is_submit (snd (snd (snd (handle_message e h w' message effs'))))
           = filter is_submit effs'" for w' effs'
    using handle_message_manual [OF assms] .
  have "decode_payload e message_data = Inr (Some message, l) \<Longrightarrow>
        handle e h w message_data = handle_message e h (send_ack e message_data w) message []"
    using decode_payload_some [of e message_data message l] by (simp add: handle_def)
  then show ?thesis
    using m [of w effs] m [of "send_ack e message_data w" "[]"]
      send_ack_chat_frames [of e message_data w]
      dispatch_manual_buyer [OF assms(2), of send_user_id w message send_message send_user_name
        item_id effs]
    by simp
qed

theorem C1_takeover_suppression_witness:
  "handle ex_env (enter_manual_mode 900 ex_handler ''c1'') ex_socket
          (ex_frame (ex_chat ''buyer'' ''hi''))
     = (None, enter_manual_mode 900 ex_handler ''c1'',
        \<lparr> is_open = True, sent = [AckFrame [(''mid'', JStr ''9''), (''sid'', JStr ''s'')]] \<rparr>,
        [Log Info, EnsureThread ''c1'' (JStr ''buyer'') ''42'', AddMessage ''c1'' ''user'' (JStr ''hi''),
         Log Info])"
proof -
  let ?h = "enter_manual_mode 900 ex_handler ''c1''"
  let ?w = "\<lparr> is_open = True, sent = [AckFrame [(''mid'', JStr ''9''), (''sid'', JStr ''s'')]] \<rparr>"
  have exp: "message_expire_time ?h = 300000"
    by (simp add: enter_manual_mode_def ex_handler_fields)
  have id: "JStr ''buyer'' \<noteq> JStr (myid ?h)"
    by (simp add: enter_manual_mode_def ex_handler_fields)
  have "dispatch ex_env ?h ?w (ex_chat ''buyer'' ''hi'') (JStr ''hi'') (JStr ''Bob'') (JStr ''buyer'')
          ''42'' ''c1'' []
        = (None, ?h, ?w,
           [Log Info, EnsureThread ''c1'' (JStr ''buyer'') ''42'',
            AddMessage ''c1'' ''user'' (JStr ''hi''), Log Info])"
    using C1_takeover_suppression [OF ex_chat_id [of "''buyer''" "''hi''"] ex_manual,
        where send_user_id = "JStr ''buyer''"
        and w = ?w and send_message = "JStr ''hi''" and send_user_name = "JStr ''Bob''"
        and item_id = "''42''" and effs = "[]"] id
    by (simp add: add_message_by_chat_def sql_bindable_def)
  then show ?thesis
    by (simp add: ex_handle [OF exp])
qed

subsection \<open>Field extraction\<close>

text \<open>
  The recogniser of chat messages answers true exactly for a dictionary whose entry
  \<^verbatim>\<open>1\<close> is a dictionary whose entry \<^verbatim>\<open>10\<close> is a dictionary with a \<^verbatim>\<open>reminderContent\<close>. The
  reading of the fields (lines 246 to 258) returns exactly when every field it reads is
  there and of a type it can use; in every other case it raises. An exception that
  leaves \<^verbatim>\<open>handle\<close> is caught by the receive loop, which logs it and goes on with the
  next frame.
\<close>

lemma is_chat_message_iff:
  "is_chat_message message \<longleftrightarrow>
     (\<exists>kvs m1 m10 v. message = JDict kvs \<and> map_of kvs ''1'' = Some (JDict m1)
        \<and> map_of m1 ''10'' = Some (JDict m10) \<and> map_of m10 ''reminderContent'' = Some v)"
  by (auto simp: is_chat_message_def except_False_def and_then_def bnd_def isinstance_dict_def
        py_in_def py_item_def
      split: json.splits option.splits sum.splits)

lemma parse_chat_returns_iff:
  "parse_chat e h message = Inr r \<longleftrightarrow>
     (\<exists>kvs m1 t ct m10 n u v.
        message = JDict kvs \<and> map_of kvs ''1'' = Some (JDict m1)
        \<and> map_of m1 ''5'' = Some t \<and> py_int e t = Inr ct
        \<and> map_of m1 ''10'' = Some (JDict m10)
        \<and> map_of m10 ''reminderTitle'' = Some n \<and> map_of m10 ''senderUserId'' = Some u
        \<and> map_of m10 ''reminderContent'' = Some v
        \<and> (if clock_expiry e * 1000 - real_of_int ct > real_of_int (message_expire_time h)
            then r = None
            else (\<exists>url item s.
                    map_of m10 ''reminderUrl'' = Some url \<and> extract_item_id url = Inr item
                    \<and> map_of m1 ''2'' = Some (JStr s)
                    \<and> r = Some (n, u, v, item, split0 ''@'' s))))"
proof (cases message)
  case (JDict kvs)
  show ?thesis
  proof (cases "map_of kvs ''1''")
    case None
    then show ?thesis using JDict by (simp add: parse_chat_def bnd_def py_item_def)
  next
    case (Some x)
    show ?thesis
    proof (cases x)
      case (JDict m1)
      note m1 = this
      show ?thesis
      proof (cases "map_of m1 ''10''")
        case None
        then show ?thesis using \<open>message = JDict kvs\<close> Some m1
          by (auto simp: parse_chat_def bnd_def py_item_def split: option.splits sum.splits)
      next
        case (Some y)
        note s10 = this
        show ?thesis
        proof (cases y)
          case (JDict m10)
          then show ?thesis using \<open>message = JDict kvs\<close> \<open>map_of kvs ''1'' = Some x\<close> m1 s10
            by (auto simp: parse_chat_def bnd_def py_item_def chat_id_of_def py_split0_def
                split: option.splits sum.splits json.splits)
        qed (use \<open>message = JDict kvs\<close> \<open>map_of kvs ''1'' = Some x\<close> m1 s10 in
              \<open>auto simp: parse_chat_def bnd_def py_item_def split: option.splits sum.splits\<close>)
      qed
    qed (use \<open>message = JDict kvs\<close> Some in \<open>simp_all add: parse_chat_def bnd_def py_item_def\<close>)
  qed
qed (simp_all add: parse_chat_def bnd_def py_item_def)

lemma receive_step_raised:
  assumes "handle e h w message_data = (Some err, h', w', effs)"
    and "\<not> connection_restart_flag s"
    and "HeartbeatManager_handle_response now (heartbeat s) message_data = Inr (hb, False)"
  shows "receive_step e now s h w (Some message_data) = (s, h', w', Next_frame, effs @ [Log Error])"
  using assms by (simp add: receive_step_def)

text \<open>
  Claim C2 says that every field access is defensive and that a payload with a missing
  field is dropped as unrecognised, without an exception. The example payload has the
  reminder content and neither creation time nor conversation id. It is recognised as
  a chat message, and line 246 then reads \<^verbatim>\<open>message["1"]["5"]\<close>: KeyError leaves
  \<^verbatim>\<open>handle\<close>.
\<close>

theorem C2_counterexample:
  "is_chat_message ex_chat_incomplete
   \<and> handle ex_env ex_handler ex_socket (ex_frame ex_chat_incomplete)
      = (Some KeyError, ex_handler,
         \<lparr> is_open = True, sent = [AckFrame [(''mid'', JStr ''9''), (''sid'', JStr ''s'')]] \<rparr>,
         [])"
proof -
  have 1: "is_chat_message ex_chat_incomplete"
    by (simp add: is_chat_message_iff ex_chat_incomplete_def)
  have 2: "handle_order_message ex_env ex_chat_incomplete = (False, [])"
    by (simp add: handle_order_message_def ex_chat_incomplete_def bnd_def py_get_def truthy_def)
  have 3: "\<not> is_typing_status ex_chat_incomplete"
    by (simp add: is_typing_status_def ex_chat_incomplete_def except_False_def and_then_def bnd_def
      isinstance_dict_def isinstance_list_def py_in_def py_item_def)
  have 4: "parse_chat ex_env ex_handler ex_chat_incomplete = Inl KeyError"
    by (simp add: parse_chat_def ex_chat_incomplete_def bnd_def py_item_def)
  show ?thesis
    using 1 2 3 4
    by (simp add: handle_def ex_decode ex_env_fields ex_ack handle_message_def handle_chat_def)
qed

text \<open>
  Claim C2, as the code has it.

  \<^item> Recognition is defensive: the recogniser of chat messages answers for every
    payload, and accepts exactly the payloads with a reminder content at the fixed
    path.

  \<^item> Field extraction is not: for a payload that is no order message and no typing
    status and is recognised as a chat message, an exception raised while its fields
    are read (lines 246 to 258) leaves \<^verbatim>\<open>handle\<close>. Nothing has happened then but the
    acknowledgement of the frame and what the order handler logged: the registry is
    unchanged, nothing is recorded, submitted or sent. The receive loop catches the
    exception, logs it as an error and goes on with the next frame.

  \<^item> A missing creation time raises KeyError, a null creation time TypeError, and a
    missing conversation id, with everything else in place and the message not
    expired, KeyError.

  \<^item> The reading returns, and does not raise, exactly when the payload is a dictionary
    whose entry \<^verbatim>\<open>1\<close> is a dictionary with a creation time that \<^verbatim>\<open>int\<close> accepts and an
    entry \<^verbatim>\<open>10\<close> that is a dictionary with sender name, sender id and reminder content,
    and either the message is expired (it is dropped then) or there are a reminder URL
    from which the item id is read without an exception and a conversation id that is
    a string.
\<close>

theorem C2_extraction_raises:
  "(is_chat_message message \<longleftrightarrow>
     (\<exists>kvs m1 m10 v. message = JDict kvs \<and> map_of kvs ''1'' = Some (JDict m1)
        \<and> map_of m1 ''10'' = Some (JDict m10) \<and> map_of m10 ''reminderContent'' = Some v))
   \<and> (handle_order_message e message = (False, l) \<and> \<not> is_typing_status message
        \<and> is_chat_message message \<and> parse_chat e h message = Inl err
      \<longrightarrow> handle_message e h w message effs = (Some err, h, w, effs @ l)
        \<and> (decode_payload e message_data = Inr (Some message, [])
            \<longrightarrow> handle e h w message_data = (Some err, h, send_ack e message_data w, l)
              \<and> (\<not> connection_restart_flag s
                   \<and> HeartbeatManager_handle_response now (heartbeat s) message_data = Inr (hb, False)
                 \<longrightarrow> receive_step e now s h w (Some message_data)
                       = (s, h, send_ack e message_data w, Next_frame, l @ [Log Error]))))
   \<and> (message = JDict kvs \<and> map_of kvs ''1'' = Some (JDict m1) \<and> map_of m1 ''5'' = None
      \<longrightarrow> parse_chat e h message = Inl KeyError)
   \<and> (message = JDict kvs \<and> map_of kvs ''1'' = Some (JDict m1) \<and> map_of m1 ''5'' = Some JNull
      \<longrightarrow> parse_chat e h message = Inl TypeError)
   \<and> (message = JDict kvs \<and> map_of kvs ''1'' = Some (JDict m1) \<and> map_of m1 ''5'' = Some (JInt t)
        \<and> map_of m1 ''10'' = Some (JDict m10) \<and> map_of m10 ''reminderTitle'' = Some n
        \<and> map_of m10 ''senderUserId'' = Some u \<and> map_of m10 ''reminderContent'' = Some v
        \<and> \<not> clock_expiry e * 1000 - real_of_int t > real_of_int (message_expire_time h)
        \<and> map_of m10 ''reminderUrl'' = Some url \<and> extract_item_id url = Inr item
        \<and> map_of m1 ''2'' = None
      \<longrightarrow> parse_chat e h message = Inl KeyError)
   \<and> (parse_chat e h message = Inr r \<longleftrightarrow>
     (\<exists>kvs m1 t ct m10 n u v.
        message = JDict kvs \<and> map_of kvs ''1'' = Some (JDict m1)
        \<and> map_of m1 ''5'' = Some t \<and> py_int e t = Inr ct
        \<and> map_of m1 ''10'' = Some (JDict m10)
        \<and> map_of m10 ''reminderTitle'' = Some n \<and> map_of m10 ''senderUserId'' = Some u
        \<and> map_of m10 ''reminderContent'' = Some v
        \<and> (if clock_expiry e * 1000 - real_of_int ct > real_of_int (message_expire_time h)
            then r = None
            else (\<exists>url item s.
                    map_of m10 ''reminderUrl'' = Some url \<and> extract_item_id url = Inr item
                    \<and> map_of m1 ''2'' = Some (JStr s)
                    \<and> r = Some (n, u, v, item, split0 ''@'' s)))))"
proof (intro conjI impI)
  show "is_chat_message message \<longleftrightarrow>
     (\<exists>kvs m1 m10 v. message = JDict kvs \<and> map_of kvs ''1'' = Some (JDict m1)
        \<and> map_of m1 ''10'' = Some (JDict m10) \<and> map_of m10 ''reminderContent'' = Some v)"
    by (rule is_chat_message_iff)
next
  assume a: "handle_order_message e message = (False, l) \<and> \<not> is_typing_status message
        \<and> is_chat_message message \<and> parse_chat e h message = Inl err"
  then show hm: "handle_message e h w message effs = (Some err, h, w, effs @ l)"
    by (simp add: handle_message_def handle_chat_def)
  assume d: "decode_payload e message_data = Inr (Some message, [])"
  from a d show hd: "handle e h w message_data = (Some err, h, send_ack e message_data w, l)"
    by (simp add: handle_def handle_message_def handle_chat_def)
  assume "\<not> connection_restart_flag s
       \<and> HeartbeatManager_handle_response now (heartbeat s) message_data = Inr (hb, False)"
  then show "receive_step e now s h w (Some message_data)
       = (s, h, send_ack e message_data w, Next_frame, l @ [Log Error])"
    using receive_step_raised [OF hd, of s now hb] by simp
next
  assume "message = JDict kvs \<and> map_of kvs ''1'' = Some (JDict m1) \<and> map_of m1 ''5'' = None"
  then show "parse_chat e h message = Inl KeyError"
    by (simp add: parse_chat_def bnd_def py_item_def)
next
  assume "message = JDict kvs \<and> map_of kvs ''1'' = Some (JDict m1) \<and> map_of m1 ''5'' = Some JNull"
  then show "parse_chat e h message = Inl TypeError"
    by (simp add: parse_chat_def bnd_def py_item_def py_int_def)
next
  assume "message = JDict kvs \<and> map_of kvs ''1'' = Some (JDict m1) \<and> map_of m1 ''5'' = Some (JInt t)
        \<and> map_of m1 ''10'' = Some (JDict m10) \<and> map_of m10 ''reminderTitle'' = Some n
        \<and> map_of m10 ''senderUserId'' = Some u \<and> map_of m10 ''reminderContent'' = Some v
        \<and> \<not> clock_expiry e * 1000 - real_of_int t > real_of_int (message_expire_time h)
        \<and> map_of m10 ''reminderUrl'' = Some url \<and> extract_item_id url = Inr item
        \<and> map_of m1 ''2'' = None"
  then show "parse_chat e h message = Inl KeyError"
    by (simp add: parse_chat_def bnd_def py_item_def py_int_def chat_id_of_def)
next
  show "parse_chat e h message = Inr r \<longleftrightarrow>
     (\<exists>kvs m1 t ct m10 n u v.
        message = JDict kvs \<and> map_of kvs ''1'' = Some (JDict m1)
        \<and> map_of m1 ''5'' = Some t \<and> py_int e t = Inr ct
        \<and> map_of m1 ''10'' = Some (JDict m10)
        \<and> map_of m10 ''reminderTitle'' = Some n \<and> map_of m10 ''senderUserId'' = Some u
        \<and> map_of m10 ''reminderContent'' = Some v
        \<and> (if clock_expiry e * 1000 - real_of_int ct > real_of_int (message_expire_time h)
            then r = None
            else (\<exists>url item s.
                    map_of m10 ''reminderUrl'' = Some url \<and> extract_item_id url = Inr item
                    \<and> map_of m1 ''2'' = Some (JStr s)
                    \<and> r = Some (n, u, v, item, split0 ''@'' s))))"
    by (rule parse_chat_returns_iff)
qed

theorem C2_extraction_raises_witness:
  "receive_step ex_env 12 ex_session ex_handler ex_socket (Some (ex_frame ex_chat_incomplete))
     = (ex_session, ex_handler,
        \<lparr> is_open = True, sent = [AckFrame [(''mid'', JStr ''9''), (''sid'', JStr ''s'')]] \<rparr>,
        Next_frame, [Log Error])"
proof -
  have 1: "is_chat_message ex_chat_incomplete"
    by (simp add: is_chat_message_iff ex_chat_incomplete_def)
  have 2: "handle_order_message ex_env ex_chat_incomplete = (False, [])"
    by (simp add: handle_order_message_def ex_chat_incomplete_def bnd_def py_get_def truthy_def)
  have 3: "\<not> is_typing_status ex_chat_incomplete"
    by (simp add: is_typing_status_def ex_chat_incomplete_def except_False_def and_then_def bnd_def
      isinstance_dict_def isinstance_list_def py_in_def py_item_def)
  have 4: "parse_chat ex_env ex_handler ex_chat_incomplete = Inl KeyError"
    using C2_extraction_raises [where message = ex_chat_incomplete
        and kvs = "[(''1'', JDict [(''10'', JDict [(''reminderContent'', JStr ''hi'')])])]"
        and ?m1.0 = "[(''10'', JDict [(''reminderContent'', JStr ''hi'')])]"
        and e = ex_env and h = ex_handler]
    by (simp add: ex_chat_incomplete_def)
  have 5: "decode_payload ex_env (ex_frame ex_chat_incomplete) = Inr (Some ex_chat_incomplete, [])"
    by (simp add: ex_decode ex_env_fields)
  have 6: "\<not> connection_restart_flag ex_session
     \<and> HeartbeatManager_handle_response 12 (heartbeat ex_session) (ex_frame ex_chat_incomplete)
         = Inr (heartbeat ex_session, False)"
    by (simp add: ex_not_heartbeat) (simp add: ex_session_def)
  show ?thesis
    using C2_extraction_raises [where message = ex_chat_incomplete and e = ex_env and h = ex_handler
        and l = "[]" and err = KeyError and message_data = "ex_frame ex_chat_incomplete"
        and w = ex_socket and s = ex_session and now = 12 and hb = "heartbeat ex_session"]
      1 2 3 4 5 6
    by (simp add: ex_ack)
qed

subsection \<open>The reply and the socket\<close>




end
